theory Spec2Isabelle
  imports Main
begin

section \<open>Errors\<close>

text \<open>
  The error values of \<^verbatim>\<open>httpclient.go\<close>.  The package-level sentinels (lines 17-33) are
  one constructor each; an error made by a library (net/http, net/url, encoding/json) is
  \<open>Foreign\<close> with its message, and is never one of the sentinels of this package.
  \<open>Errorf\<close> is \<^verbatim>\<open>fmt.Errorf\<close> without \<^verbatim>\<open>%w\<close> (a fresh error carrying only its text),
  \<open>Errorf_w\<close> is \<^verbatim>\<open>fmt.Errorf\<close> with one \<^verbatim>\<open>%w\<close> (the formatted text and the wrapped error),
  \<open>Join\<close> is \<^verbatim>\<open>errors.Join\<close> of two non-nil errors.
\<close>

datatype sentinel =
    ErrUserAccessDenied
  | ErrNotFound
  | ErrTooManyRequests
  | ErrNilResponse
  | ErrUnprocessableEntity
  | ErrInternalServerError
  | ErrBadRequest
  | ErrBadGateway
  | ErrServiceUnavailable
  | ErrGatewayTimeout
  | ErrUnhandled
  | ErrRetriable

fun sentinel_text :: "sentinel \<Rightarrow> string" where
  "sentinel_text ErrUserAccessDenied = ''requested resource unauthorized''"
| "sentinel_text ErrNotFound = ''requested resource not found''"
| "sentinel_text ErrTooManyRequests = ''requested resource rate limited''"
| "sentinel_text ErrNilResponse = ''response is nil''"
| "sentinel_text ErrUnprocessableEntity = ''unprocessable entity''"
| "sentinel_text ErrInternalServerError = ''internal server error''"
| "sentinel_text ErrBadRequest = ''bad request''"
| "sentinel_text ErrBadGateway = ''bad gateway''"
| "sentinel_text ErrServiceUnavailable = ''service unavailable''"
| "sentinel_text ErrGatewayTimeout = ''gateway timeout''"
| "sentinel_text ErrUnhandled = ''unknown error''"
| "sentinel_text ErrRetriable = ''retriable error''"

datatype err =
    Sentinel sentinel
  | Foreign string
  | Errorf string
  | Errorf_w string err
  | Join err err

text \<open>The method \<^verbatim>\<open>Error()\<close>: the string representation of an error.\<close>

fun Error :: "err \<Rightarrow> string" where
  "Error (Sentinel s) = sentinel_text s"
| "Error (Foreign m) = m"
| "Error (Errorf m) = m"
| "Error (Errorf_w m e) = m"
| "Error (Join a b) = Error a @ [CHR 0x0A] @ Error b"

text \<open>\<^verbatim>\<open>errors.Is(e, target)\<close> for a sentinel target: the walk through \<^verbatim>\<open>Unwrap\<close>.\<close>

fun errors_Is :: "err \<Rightarrow> sentinel \<Rightarrow> bool" where
  "errors_Is (Sentinel s) t = (s = t)"
| "errors_Is (Foreign m) t = False"
| "errors_Is (Errorf m) t = False"
| "errors_Is (Errorf_w m e) t = errors_Is e t"
| "errors_Is (Join a b) t = (errors_Is a t \<or> errors_Is b t)"

text \<open>The errors reachable from an error by unwrapping, itself first.\<close>

fun unwrap_chain :: "err \<Rightarrow> err list" where
  "unwrap_chain (Errorf_w m e) = Errorf_w m e # unwrap_chain e"
| "unwrap_chain (Join a b) = Join a b # unwrap_chain a @ unwrap_chain b"
| "unwrap_chain e = [e]"

definition wraps :: "err \<Rightarrow> err \<Rightarrow> bool" where
  "wraps e cause = (cause \<in> set (unwrap_chain e))"

text \<open>The Retriable marking is membership of \<open>ErrRetriable\<close> (line 32) in the chain.\<close>

definition retriable :: "err \<Rightarrow> bool" where
  "retriable e = errors_Is e ErrRetriable"

subsection \<open>Formatting\<close>

text \<open>The verb \<^verbatim>\<open>%d\<close> of package fmt on an \<^verbatim>\<open>int\<close>: decimal digits, a sign when negative.\<close>

fun fmt_digits :: "nat \<Rightarrow> string" where
  "fmt_digits n =
     (if n < 10 then [''0123456789'' ! n]
      else fmt_digits (n div 10) @ [''0123456789'' ! (n mod 10)])"

declare fmt_digits.simps [simp del]

definition fmt_d :: "int \<Rightarrow> string" where
  "fmt_d i = (if i < 0 then ''-'' @ fmt_digits (nat (- i)) else fmt_digits (nat i))"

text \<open>Whether a text occurs in another one, as \<^verbatim>\<open>strings.Contains\<close> decides it.\<close>

fun has_prefix :: "string \<Rightarrow> string \<Rightarrow> bool" where
  "has_prefix s [] = True"
| "has_prefix [] (p # ps) = False"
| "has_prefix (c # cs) (p # ps) = (c = p \<and> has_prefix cs ps)"

fun contains :: "string \<Rightarrow> string \<Rightarrow> bool" where
  "contains [] sub = (sub = [])"
| "contains (c # cs) sub = (has_prefix (c # cs) sub \<or> contains cs sub)"

section \<open>Requests, responses and the client\<close>

type_synonym header = "(string \<times> string list) list"

text \<open>
  A \<^verbatim>\<open>context.Context\<close>: the background context or one made by the caller.  The
  context of a call is never nil.
\<close>

datatype ctx = Background | Ctx nat

record request =
  req_Method :: string
  req_URL :: string
  req_Header :: header
  req_Body :: "string option"
  req_Context :: ctx

text \<open>
  A response body is a stream: the bytes not read yet, and whether it has been closed.
\<close>

record body =
  unread :: string
  closed :: bool

record response =
  StatusCode :: int
  resp_Header :: header
  resp_Body :: body

text \<open>
  The \<^verbatim>\<open>*http.Client\<close> of the library, as far as a call of \<^verbatim>\<open>Do\<close> goes:
  \<^item> \<open>RoundTrip\<close> is its transport (a \<^verbatim>\<open>RoundTripper\<close>): the pair
    \<^verbatim>\<open>(*http.Response, error)\<close> it returns for a request, \<open>None\<close> being \<^verbatim>\<open>nil\<close>, the
    error given by the text with which \<^verbatim>\<open>Do\<close> reports it;
  \<^item> \<open>cookie_header\<close> is the header map of a request once the client has added the
    cookies of its jar to it (\<^verbatim>\<open>req.AddCookie\<close>); a client without a jar leaves the map
    as it is;
  \<^item> \<open>nil_error\<close> is the text of the error with which the client reports a transport
    that returned neither a response nor an error.
\<close>

record http_Client =
  RoundTrip :: "request \<Rightarrow> response option \<times> string option"
  cookie_header :: "request \<Rightarrow> header"
  nil_error :: "request \<Rightarrow> string"

text \<open>
  \<^verbatim>\<open>(*http.Client).Do\<close>, from the library's source: it adds the jar's cookies to the
  header map of the request it is given, runs the round trip, and returns the response or
  the error; a response that comes with an error is dropped, and a nil response with a nil
  error is turned into an error.  So \<^verbatim>\<open>Do\<close> never returns \<^verbatim>\<open>(nil, nil)\<close>.  The first
  component is the header map of the request as \<^verbatim>\<open>Do\<close> leaves it.  Redirects are outside
  the model.
\<close>

definition Client_Do :: "http_Client \<Rightarrow> request \<Rightarrow> header \<times> response option \<times> string option" where
  "Client_Do hc r =
     (let hm = cookie_header hc r
      in case RoundTrip hc (r\<lparr>req_Header := hm\<rparr>) of
           (resp, Some e) \<Rightarrow> (hm, None, Some e)
         | (None, None) \<Rightarrow> (hm, None, Some (nil_error hc r))
         | (Some resp, None) \<Rightarrow> (hm, Some resp, None))"

record Options =
  Debug :: bool

record Client =
  httpClient :: http_Client
  options :: Options

abbreviation MethodGet :: string where "MethodGet \<equiv> ''GET''"
abbreviation MethodHead :: string where "MethodHead \<equiv> ''HEAD''"
abbreviation MethodPost :: string where "MethodPost \<equiv> ''POST''"
abbreviation MethodPut :: string where "MethodPut \<equiv> ''PUT''"
abbreviation MethodPatch :: string where "MethodPatch \<equiv> ''PATCH''"
abbreviation MethodDelete :: string where "MethodDelete \<equiv> ''DELETE''"

abbreviation StatusOK :: int where "StatusOK \<equiv> 200"
abbreviation StatusCreated :: int where "StatusCreated \<equiv> 201"
abbreviation StatusAccepted :: int where "StatusAccepted \<equiv> 202"
abbreviation StatusNoContent :: int where "StatusNoContent \<equiv> 204"
abbreviation StatusBadRequest :: int where "StatusBadRequest \<equiv> 400"
abbreviation StatusUnauthorized :: int where "StatusUnauthorized \<equiv> 401"
abbreviation StatusForbidden :: int where "StatusForbidden \<equiv> 403"
abbreviation StatusNotFound :: int where "StatusNotFound \<equiv> 404"
abbreviation StatusUnprocessableEntity :: int where "StatusUnprocessableEntity \<equiv> 422"
abbreviation StatusTooManyRequests :: int where "StatusTooManyRequests \<equiv> 429"
abbreviation StatusInternalServerError :: int where "StatusInternalServerError \<equiv> 500"
abbreviation StatusBadGateway :: int where "StatusBadGateway \<equiv> 502"
abbreviation StatusServiceUnavailable :: int where "StatusServiceUnavailable \<equiv> 503"
abbreviation StatusGatewayTimeout :: int where "StatusGatewayTimeout \<equiv> 504"

subsection \<open>What a call leaves behind\<close>

text \<open>
  The diagnostic sink receives the serialisation of a request or of a response; the model
  keeps the value that was serialised.  A trace lists, in order, what was written to the
  sink and which requests were handed to \<^verbatim>\<open>Do\<close>.
\<close>

datatype dump = RequestDump request | ResponseDump response

datatype event = LogPrintf dump | ClientDo request

text \<open>A function of the source either returns or panics (a nil dereference).\<close>

datatype 'a go = Return 'a | Panic

text \<open>
  The decode target \<^verbatim>\<open>v any\<close>: \<open>None\<close> is \<^verbatim>\<open>nil\<close>; a non-nil target determines, by its
  dynamic type, what \<^verbatim>\<open>json.Decoder.Decode\<close> does with the bytes offered by the reader:
  how many of them it reads, the error it reports if any, and the value it stores.
\<close>

record 'v decoded =
  consumed :: nat
  failure :: "string option"
  stored :: 'v

type_synonym 'v target = "string \<Rightarrow> 'v decoded"

record 'v outcome =
  result :: "err option go"
  carrier :: "header option"
  target_value :: "'v option"
  trace :: "event list"
  final_body :: "body option"

section \<open>Library functions the source calls\<close>

text \<open>
  \<^verbatim>\<open>http.NewRequest\<close>: the library validates the method and parses the URL.  The parameter
  \<open>nr\<close> is that validation: for a method and a raw URL, the library's error or the string
  form (\<^verbatim>\<open>URL.String()\<close>) of the parsed URL.  The new request has an empty header set, the
  given body and the background context.
\<close>

type_synonym netlib = "string \<Rightarrow> string \<Rightarrow> string + string"

definition http_NewRequest :: "netlib \<Rightarrow> string \<Rightarrow> string \<Rightarrow> string option \<Rightarrow> string + request" where
  "http_NewRequest nr method url reqBody =
     (case nr method url of
        Inl e \<Rightarrow> Inl e
      | Inr u \<Rightarrow> Inr \<lparr>req_Method = method, req_URL = u, req_Header = [],
                     req_Body = reqBody, req_Context = Background\<rparr>)"

text \<open>
  \<^verbatim>\<open>httputil.DumpRequest(req, true)\<close> and \<^verbatim>\<open>httputil.DumpResponse(resp, true)\<close> serialise
  the value they are given and put a reader over a copy of the body bytes back in place, so
  the value reads afterwards as it did before.
\<close>

definition DumpRequest :: "request \<Rightarrow> dump \<times> request" where
  "DumpRequest req = (RequestDump req, req)"

definition DumpResponse :: "response \<Rightarrow> dump \<times> response" where
  "DumpResponse resp = (ResponseDump resp, resp)"

definition WithContext :: "request \<Rightarrow> ctx \<Rightarrow> request" where
  "WithContext req c = req\<lparr>req_Context := c\<rparr>"

definition Clone :: "header \<Rightarrow> header" where
  "Clone h = h"

text \<open>\<^verbatim>\<open>io.ReadAll\<close> (and \<^verbatim>\<open>io.Copy\<close> to \<^verbatim>\<open>io.Discard\<close>): every unread byte is read.\<close>

definition io_ReadAll :: "body \<Rightarrow> string \<times> body" where
  "io_ReadAll b = (unread b, b\<lparr>unread := []\<rparr>)"

definition Close :: "body \<Rightarrow> body" where
  "Close b = b\<lparr>closed := True\<rparr>"

text \<open>
  \<^verbatim>\<open>json.NewDecoder(io.TeeReader(resp.Body, &buf)).Decode(v)\<close>: the bytes the decoder
  reads leave the body and are copied to \<open>buf\<close>.
\<close>

definition Decode_tee :: "'v target \<Rightarrow> body \<Rightarrow> string \<times> 'v decoded \<times> body" where
  "Decode_tee v b =
     (let d = v (unread b)
      in (take (consumed d) (unread b), d, b\<lparr>unread := drop (consumed d) (unread b)\<rparr>))"

section \<open>The functions of httpclient.go\<close>

text \<open>The format \<^verbatim>\<open>failMsg\<close> (line 15), applied to a method and the wrapped error.\<close>

definition failMsg :: "string \<Rightarrow> err \<Rightarrow> err" where
  "failMsg method e = Errorf_w (''failed to create '' @ method @ '' request: '' @ Error e) e"

text \<open>
  \<^verbatim>\<open>newRequest\<close> (lines 122-140).  It returns what it wrote to the sink, and the error or
  the request.
\<close>

definition newRequest ::
  "netlib \<Rightarrow> Client \<Rightarrow> ctx \<Rightarrow> string \<Rightarrow> string \<Rightarrow> string option \<Rightarrow> event list \<times> (err + request)" where
  "newRequest nr c cx method apiURL payload =
     (let reqBody = (case payload of None \<Rightarrow> None | Some p \<Rightarrow> Some p)
      in case http_NewRequest nr method apiURL reqBody of
           Inl e \<Rightarrow> ([], Inl (Errorf_w (''failed to create HTTP request: '' @ e) (Foreign e)))
         | Inr req0 \<Rightarrow>
             (let (log, req) =
                    (if Debug (options c)
                     then (let (d, req') = DumpRequest req0 in ([LogPrintf d], req'))
                     else ([], req0))
              in (log, Inr (WithContext req cx))))"

text \<open>The second switch of \<^verbatim>\<open>do\<close> (lines 206-227), on the status code and the body read.\<close>

definition status_error :: "int \<Rightarrow> string \<Rightarrow> err" where
  "status_error sc b =
     (if sc = StatusNotFound then Sentinel ErrNotFound
      else if sc = StatusUnauthorized \<or> sc = StatusForbidden then Sentinel ErrUserAccessDenied
      else if sc = StatusTooManyRequests
        then Join (Sentinel ErrTooManyRequests) (Sentinel ErrRetriable)
      else if sc = StatusUnprocessableEntity
        then Join (Sentinel ErrUnprocessableEntity) (Sentinel ErrRetriable)
      else if sc = StatusInternalServerError
        then Join (Sentinel ErrInternalServerError) (Sentinel ErrRetriable)
      else if sc = StatusBadGateway
        then Join (Sentinel ErrBadGateway) (Sentinel ErrRetriable)
      else if sc = StatusServiceUnavailable
        then Join (Sentinel ErrServiceUnavailable) (Sentinel ErrRetriable)
      else if sc = StatusGatewayTimeout
        then Join (Sentinel ErrGatewayTimeout) (Sentinel ErrRetriable)
      else if sc = StatusBadRequest then Sentinel ErrBadRequest
      else Join (Errorf (''request failed, '' @ fmt_d sc @ '' status code received: '' @ b))
                (Sentinel ErrUnhandled))"

text \<open>
  \<^verbatim>\<open>do\<close> (lines 182-228).  It returns the trace, the header map of the request as
  \<^verbatim>\<open>Do\<close> left it, the state in which it leaves the body of the response (if there is
  one), and its pair of results.  Were \<^verbatim>\<open>Do\<close> to return neither a response nor an error,
  \<^verbatim>\<open>resp.StatusCode\<close> (line 193; with Debug the dump of line 189) would dereference nil.
\<close>

definition do ::
  "Client \<Rightarrow> request
     \<Rightarrow> event list \<times> header \<times> body option \<times> (response option \<times> err option) go" where
  "do c r =
     (case Client_Do (httpClient c) r of
        (hm, resp, Some e) \<Rightarrow>
          ([ClientDo r], hm, map_option resp_Body resp,
           Return (None, Some (Errorf_w
              (''failed to make request ['' @ req_Method r @ '':'' @ req_URL r @ '']: '' @ e)
              (Foreign e))))
      | (hm, None, None) \<Rightarrow> ([ClientDo r], hm, None, Panic)
      | (hm, Some resp0, None) \<Rightarrow>
          (let (log, resp) =
                 (if Debug (options c)
                  then (let (d, resp') = DumpResponse resp0 in ([LogPrintf d], resp'))
                  else ([], resp0))
           in if StatusCode resp = StatusOK \<or> StatusCode resp = StatusCreated
                 \<or> StatusCode resp = StatusAccepted \<or> StatusCode resp = StatusNoContent
              then (ClientDo r # log, hm, Some (resp_Body resp), Return (Some resp, None))
              else (let (b, drained) = io_ReadAll (resp_Body resp)
                    in (ClientDo r # log, hm, Some (Close drained),
                        Return (None, Some (status_error (StatusCode resp) b))))))"

text \<open>
  Line 144, \<^verbatim>\<open>r.Header = *headers\<close>, makes the request and the caller share one header
  map: until line 158 gives the caller a new map, the carrier holds what the header map of
  the request holds.
\<close>

definition shared :: "header option \<Rightarrow> header \<Rightarrow> header option" where
  "shared headers hm = (case headers of None \<Rightarrow> None | Some h \<Rightarrow> Some hm)"

text \<open>
  \<^verbatim>\<open>doRequest\<close> (lines 142-180).  The deferred \<^verbatim>\<open>Close\<close> of line 155 runs on each return
  that follows it.
\<close>

definition doRequest ::
  "Client \<Rightarrow> request \<Rightarrow> 'v target option \<Rightarrow> header option \<Rightarrow> 'v outcome" where
  "doRequest c r0 v headers =
     (let r = (case headers of None \<Rightarrow> r0 | Some h \<Rightarrow> r0\<lparr>req_Header := h\<rparr>)
      in case do c r of
           (tr, hm, bd, Panic) \<Rightarrow>
             \<lparr>result = Panic, carrier = shared headers hm, target_value = None, trace = tr,
              final_body = bd\<rparr>
         | (tr, hm, bd, Return (resp, Some e)) \<Rightarrow>
             \<lparr>result = Return (Some e), carrier = shared headers hm, target_value = None,
              trace = tr, final_body = bd\<rparr>
         | (tr, hm, bd, Return (None, None)) \<Rightarrow>
             \<lparr>result = Return (Some (Sentinel ErrNilResponse)), carrier = shared headers hm,
              target_value = None, trace = tr, final_body = bd\<rparr>
         | (tr, hm, bd, Return (Some resp, None)) \<Rightarrow>
             (let headers' = (case headers of None \<Rightarrow> None
                              | Some h \<Rightarrow> Some (Clone (resp_Header resp)))
              in case v of
                   None \<Rightarrow>
                     (let (b, drained) = io_ReadAll (resp_Body resp)
                      in \<lparr>result = Return None, carrier = headers', target_value = None,
                          trace = tr, final_body = Some (Close drained)\<rparr>)
                 | Some t \<Rightarrow>
                     (let (buf, d, rest) = Decode_tee t (resp_Body resp)
                      in case failure d of
                           Some e \<Rightarrow>
                             \<lparr>result = Return (Some (Errorf_w
                                 (''could not parse response body: '' @ e @ '' [''
                                   @ req_Method r @ '':'' @ req_URL r @ ''] '' @ buf)
                                 (Foreign e))),
                              carrier = headers', target_value = Some (stored d),
                              trace = tr, final_body = Some (Close rest)\<rparr>
                         | None \<Rightarrow>
                             \<lparr>result = Return None, carrier = headers',
                              target_value = Some (stored d), trace = tr,
                              final_body = Some (Close rest)\<rparr>)))"

subsection \<open>The six entry points (lines 44-120)\<close>

definition Head ::
  "netlib \<Rightarrow> Client \<Rightarrow> ctx \<Rightarrow> string \<Rightarrow> string option \<Rightarrow> header option \<Rightarrow> 'v outcome" where
  "Head nr c cx apiURL payload headers =
     (case newRequest nr c cx MethodHead apiURL payload of
        (log, Inl e) \<Rightarrow>
          \<lparr>result = Return (Some (failMsg MethodHead e)), carrier = headers,
           target_value = None, trace = log, final_body = None\<rparr>
      | (log, Inr req) \<Rightarrow>
          (let out = doRequest c req None headers in out\<lparr>trace := log @ trace out\<rparr>))"

definition Get ::
  "netlib \<Rightarrow> Client \<Rightarrow> ctx \<Rightarrow> string \<Rightarrow> 'v target option \<Rightarrow> header option \<Rightarrow> 'v outcome" where
  "Get nr c cx apiURL v headers =
     (case newRequest nr c cx MethodGet apiURL None of
        (log, Inl e) \<Rightarrow>
          \<lparr>result = Return (Some (failMsg MethodGet e)), carrier = headers,
           target_value = None, trace = log, final_body = None\<rparr>
      | (log, Inr req) \<Rightarrow>
          (let out = doRequest c req v headers in out\<lparr>trace := log @ trace out\<rparr>))"

definition Post ::
  "netlib \<Rightarrow> Client \<Rightarrow> ctx \<Rightarrow> string \<Rightarrow> string option \<Rightarrow> 'v target option \<Rightarrow> header option
     \<Rightarrow> 'v outcome" where
  "Post nr c cx apiURL payload v headers =
     (case newRequest nr c cx MethodPost apiURL payload of
        (log, Inl e) \<Rightarrow>
          \<lparr>result = Return (Some (failMsg MethodPost e)), carrier = headers,
           target_value = None, trace = log, final_body = None\<rparr>
      | (log, Inr req) \<Rightarrow>
          (let out = doRequest c req v headers in out\<lparr>trace := log @ trace out\<rparr>))"

definition Put ::
  "netlib \<Rightarrow> Client \<Rightarrow> ctx \<Rightarrow> string \<Rightarrow> string option \<Rightarrow> 'v target option \<Rightarrow> header option
     \<Rightarrow> 'v outcome" where
  "Put nr c cx apiURL payload v headers =
     (case newRequest nr c cx MethodPut apiURL payload of
        (log, Inl e) \<Rightarrow>
          \<lparr>result = Return (Some (failMsg MethodPut e)), carrier = headers,
           target_value = None, trace = log, final_body = None\<rparr>
      | (log, Inr req) \<Rightarrow>
          (let out = doRequest c req v headers in out\<lparr>trace := log @ trace out\<rparr>))"

definition Patch ::
  "netlib \<Rightarrow> Client \<Rightarrow> ctx \<Rightarrow> string \<Rightarrow> string option \<Rightarrow> 'v target option \<Rightarrow> header option
     \<Rightarrow> 'v outcome" where
  "Patch nr c cx apiURL payload v headers =
     (case newRequest nr c cx MethodPatch apiURL payload of
        (log, Inl e) \<Rightarrow>
          \<lparr>result = Return (Some (failMsg MethodPatch e)), carrier = headers,
           target_value = None, trace = log, final_body = None\<rparr>
      | (log, Inr req) \<Rightarrow>
          (let out = doRequest c req v headers in out\<lparr>trace := log @ trace out\<rparr>))"

definition Delete ::
  "netlib \<Rightarrow> Client \<Rightarrow> ctx \<Rightarrow> string \<Rightarrow> string option \<Rightarrow> 'v target option \<Rightarrow> header option
     \<Rightarrow> 'v outcome" where
  "Delete nr c cx apiURL payload v headers =
     (case newRequest nr c cx MethodDelete apiURL payload of
        (log, Inl e) \<Rightarrow>
          \<lparr>result = Return (Some (failMsg MethodDelete e)), carrier = headers,
           target_value = None, trace = log, final_body = None\<rparr>
      | (log, Inr req) \<Rightarrow>
          (let out = doRequest c req v headers in out\<lparr>trace := log @ trace out\<rparr>))"

text \<open>
  \<^verbatim>\<open>New\<close> (lines 230-243).  \<open>DefaultClient\<close> is \<^verbatim>\<open>http.DefaultClient\<close> of the library; a
  \<open>None\<close> argument is \<^verbatim>\<open>nil\<close>.
\<close>

definition New :: "http_Client \<Rightarrow> http_Client option \<Rightarrow> Options option \<Rightarrow> Client" where
  "New DefaultClient hc opts =
     (let hc' = (case hc of None \<Rightarrow> DefaultClient | Some t \<Rightarrow> t);
          opts' = (case opts of None \<Rightarrow> \<lparr>Debug = False\<rparr> | Some os \<Rightarrow> os)
      in \<lparr>httpClient = hc', options = opts'\<rparr>)"

subsection \<open>The entry points, indexed by verb\<close>

text \<open>
  A statement about every entry point quantifies over a verb.  \<open>Get\<close> has no payload
  parameter and \<open>Head\<close> has no decode target: \<open>call\<close> drops the argument the entry point
  does not take.
\<close>

datatype verb = GET | POST | PUT | PATCH | DELETE | HEAD

fun method_of :: "verb \<Rightarrow> string" where
  "method_of GET = MethodGet"
| "method_of POST = MethodPost"
| "method_of PUT = MethodPut"
| "method_of PATCH = MethodPatch"
| "method_of DELETE = MethodDelete"
| "method_of HEAD = MethodHead"

fun call ::
  "verb \<Rightarrow> netlib \<Rightarrow> Client \<Rightarrow> ctx \<Rightarrow> string \<Rightarrow> string option \<Rightarrow> 'v target option
     \<Rightarrow> header option \<Rightarrow> 'v outcome" where
  "call GET nr c cx apiURL payload v headers = Get nr c cx apiURL v headers"
| "call POST nr c cx apiURL payload v headers = Post nr c cx apiURL payload v headers"
| "call PUT nr c cx apiURL payload v headers = Put nr c cx apiURL payload v headers"
| "call PATCH nr c cx apiURL payload v headers = Patch nr c cx apiURL payload v headers"
| "call DELETE nr c cx apiURL payload v headers = Delete nr c cx apiURL payload v headers"
| "call HEAD nr c cx apiURL payload v headers = Head nr c cx apiURL payload headers"

text \<open>The payload and the decode target that reach \<open>newRequest\<close> and \<open>doRequest\<close>.\<close>

fun payload_of :: "verb \<Rightarrow> string option \<Rightarrow> string option" where
  "payload_of GET payload = None"
| "payload_of vb payload = payload"

fun target_of :: "verb \<Rightarrow> 'v target option \<Rightarrow> 'v target option" where
  "target_of HEAD v = None"
| "target_of vb v = v"

text \<open>The statuses on which \<^verbatim>\<open>do\<close> returns the response (lines 193-199).\<close>

definition success_status :: "int \<Rightarrow> bool" where
  "success_status sc = (sc = 200 \<or> sc = 201 \<or> sc = 202 \<or> sc = 204)"

subsection \<open>The common shape of the entry points\<close>

text \<open>
  The specification describes the entry points as six thin operations, each fixing the
  method and delegating to the request builder, the classifier and the response handler.
  \<open>executor\<close> is that description, with the method as a parameter; \<open>call_executor\<close>
  below shows that each entry point of the source is an instance of it.
\<close>

definition executor ::
  "netlib \<Rightarrow> Client \<Rightarrow> ctx \<Rightarrow> string \<Rightarrow> string \<Rightarrow> string option \<Rightarrow> 'v target option
     \<Rightarrow> header option \<Rightarrow> 'v outcome" where
  "executor nr c cx method apiURL payload v headers =
     (case newRequest nr c cx method apiURL payload of
        (log, Inl e) \<Rightarrow>
          \<lparr>result = Return (Some (failMsg method e)), carrier = headers,
           target_value = None, trace = log, final_body = None\<rparr>
      | (log, Inr req) \<Rightarrow>
          (let out = doRequest c req v headers in out\<lparr>trace := log @ trace out\<rparr>))"

text \<open>
  The request as \<^verbatim>\<open>http.NewRequest\<close> builds it (what \<^verbatim>\<open>newRequest\<close> dumps), and the
  request as it is handed to \<^verbatim>\<open>Do\<close>, after \<^verbatim>\<open>WithContext\<close> (line 138) and the
  assignment of the caller's headers (line 144).
\<close>

definition built_request :: "string \<Rightarrow> string \<Rightarrow> string option \<Rightarrow> request" where
  "built_request m u p =
     \<lparr>req_Method = m, req_URL = u, req_Header = [], req_Body = p, req_Context = Background\<rparr>"

definition wire_request ::
  "string \<Rightarrow> string \<Rightarrow> ctx \<Rightarrow> string option \<Rightarrow> header option \<Rightarrow> request" where
  "wire_request m u cx p h =
     \<lparr>req_Method = m, req_URL = u, req_Header = (case h of None \<Rightarrow> [] | Some x \<Rightarrow> x),
      req_Body = p, req_Context = cx\<rparr>"

definition request_log :: "Client \<Rightarrow> request \<Rightarrow> event list" where
  "request_log c r = (if Debug (options c) then [LogPrintf (RequestDump r)] else [])"

definition response_log :: "Client \<Rightarrow> response \<Rightarrow> event list" where
  "response_log c r = (if Debug (options c) then [LogPrintf (ResponseDump r)] else [])"

text \<open>The requests a trace shows as handed to \<^verbatim>\<open>Do\<close>.\<close>

fun executed :: "event list \<Rightarrow> request list" where
  "executed [] = []"
| "executed (ClientDo r # es) = r # executed es"
| "executed (LogPrintf d # es) = executed es"

text \<open>
  The error of lines 170-176 is recognised by its text and by the library error it wraps.
\<close>

fun DecodeError :: "err \<Rightarrow> bool" where
  "DecodeError (Errorf_w m (Foreign e)) = has_prefix m ''could not parse response body: ''"
| "DecodeError e = False"

subsection \<open>Test doubles\<close>

text \<open>
  A library that accepts every URL as it is written and one that rejects every URL.
  Clients without a jar over a transport that answers every request with a fixed
  response, with an error, or with neither; a client with a jar that holds one cookie, for
  requests that carry no cookie yet.  Decode targets: one that rejects what the decoder
  has read, all of a short body; one that rejects at the first byte, when the decoder has
  filled its buffer of 512 bytes once; one that accepts the value a body begins with.
\<close>

definition accept_url :: netlib where
  "accept_url m u = Inr u"

definition reject_url :: netlib where
  "reject_url m u = Inl ''missing protocol scheme''"

definition plain :: "(request \<Rightarrow> response option \<times> string option) \<Rightarrow> http_Client" where
  "plain rt =
     \<lparr>RoundTrip = rt, cookie_header = req_Header,
      nil_error = (\<lambda>r. ''http: RoundTripper implementation returned a nil *Response with a nil error'')\<rparr>"

definition respond :: "int \<Rightarrow> header \<Rightarrow> string \<Rightarrow> http_Client" where
  "respond sc hs b =
     plain (\<lambda>r. (Some \<lparr>StatusCode = sc, resp_Header = hs,
                         resp_Body = \<lparr>unread = b, closed = False\<rparr>\<rparr>, None))"

definition refuse :: http_Client where
  "refuse = plain (\<lambda>r. (None, Some ''connection refused''))"

definition silent :: http_Client where
  "silent = plain (\<lambda>r. (None, None))"

definition with_jar :: "string \<Rightarrow> http_Client \<Rightarrow> http_Client" where
  "with_jar cookie hc = hc\<lparr>cookie_header := (\<lambda>r. (''Cookie'', [cookie]) # req_Header r)\<rparr>"

definition reject_json :: "unit target" where
  "reject_json s = \<lparr>consumed = length s, failure = Some ''invalid character'', stored = ()\<rparr>"

definition reject_first_read :: "unit target" where
  "reject_first_read s =
     \<lparr>consumed = min 512 (length s), failure = Some ''invalid character'', stored = ()\<rparr>"

definition accept_first_value :: "unit target" where
  "accept_first_value s = \<lparr>consumed = length s, failure = None, stored = ()\<rparr>"

section \<open>The entry points, case by case\<close>

lemma call_executor:
  "call vb nr c cx u p v h
     = executor nr c cx (method_of vb) u (payload_of vb p) (target_of vb v) h"
  by (cases vb)
     (simp_all add: executor_def Get_def Post_def Put_def Patch_def Delete_def Head_def)

lemma payload_of_eq: "payload_of vb p = (if vb = GET then None else p)"
  by (cases vb) simp_all

lemma target_of_eq: "target_of vb v = (if vb = HEAD then None else v)"
  by (cases vb) simp_all

lemma newRequest_fail:
  "nr m u = Inl e \<Longrightarrow>
   newRequest nr c cx m u p
     = ([], Inl (Errorf_w (''failed to create HTTP request: '' @ e) (Foreign e)))"
  by (simp add: newRequest_def http_NewRequest_def Let_def split: option.splits)

lemma newRequest_ok:
  "nr m u = Inr u' \<Longrightarrow>
   newRequest nr c cx m u p
     = (request_log c (built_request m u' p), Inr (wire_request m u' cx p None))"
  by (simp add: newRequest_def http_NewRequest_def request_log_def built_request_def
      wire_request_def DumpRequest_def WithContext_def Let_def split: option.splits)

text \<open>\<^verbatim>\<open>Do\<close> returns an error and no response, or a response and no error.\<close>

lemma Client_Do_cases [case_names failed answered]:
  obtains hm e where "Client_Do hc r = (hm, None, Some e)"
  | hm rs where "Client_Do hc r = (hm, Some rs, None)"
proof -
  let ?rt = "RoundTrip hc (r\<lparr>req_Header := cookie_header hc r\<rparr>)"
  obtain ro eo where rt: "?rt = (ro, eo)"
    by (cases ?rt)
  show thesis
  proof (cases eo)
    case (Some e)
    with rt have "Client_Do hc r = (cookie_header hc r, None, Some e)"
      by (cases ro) (simp_all add: Client_Do_def)
    then show thesis by (rule that(1))
  next
    case None
    show thesis
    proof (cases ro)
      case None
      with rt \<open>eo = None\<close>
      have "Client_Do hc r = (cookie_header hc r, None, Some (nil_error hc r))"
        by (simp add: Client_Do_def)
      then show thesis by (rule that(1))
    next
      case (Some rs)
      with rt \<open>eo = None\<close> have "Client_Do hc r = (cookie_header hc r, Some rs, None)"
        by (simp add: Client_Do_def)
      then show thesis by (rule that(2))
    qed
  qed
qed

lemma Client_Do_nil:
  "RoundTrip hc (r\<lparr>req_Header := cookie_header hc r\<rparr>) = (None, None) \<Longrightarrow>
   Client_Do hc r = (cookie_header hc r, None, Some (nil_error hc r))"
  by (simp add: Client_Do_def)

lemma Client_Do_header: "fst (Client_Do hc r) = cookie_header hc r"
  by (cases "RoundTrip hc (r\<lparr>req_Header := cookie_header hc r\<rparr>)")
     (auto simp add: Client_Do_def Let_def split: option.splits)

lemma do_failed:
  "Client_Do (httpClient c) r = (hm, ro, Some e) \<Longrightarrow>
   do c r = ([ClientDo r], hm, map_option resp_Body ro,
     Return (None, Some (Errorf_w
       (''failed to make request ['' @ req_Method r @ '':'' @ req_URL r @ '']: '' @ e)
       (Foreign e))))"
  by (cases ro) (simp_all add: do_def)

lemma do_status:
  "Client_Do (httpClient c) r = (hm, Some rs, None) \<Longrightarrow> \<not> success_status (StatusCode rs) \<Longrightarrow>
   do c r = (ClientDo r # response_log c rs, hm, Some \<lparr>unread = [], closed = True\<rparr>,
     Return (None, Some (status_error (StatusCode rs) (unread (resp_Body rs)))))"
  by (simp add: do_def success_status_def response_log_def DumpResponse_def io_ReadAll_def
      Close_def Let_def)

lemma do_success:
  "Client_Do (httpClient c) r = (hm, Some rs, None) \<Longrightarrow> success_status (StatusCode rs) \<Longrightarrow>
   do c r = (ClientDo r # response_log c rs, hm, Some (resp_Body rs), Return (Some rs, None))"
  by (auto simp add: do_def success_status_def response_log_def DumpResponse_def Let_def)

lemma wire_header:
  "(case h of None \<Rightarrow> wire_request m u cx p None
    | Some x \<Rightarrow> wire_request m u cx p None\<lparr>req_Header := x\<rparr>) = wire_request m u cx p h"
  by (simp add: wire_request_def split: option.splits)

lemma executor_construction:
  assumes "nr m u = Inl e"
  shows "executor nr c cx m u p v h =
     \<lparr>result = Return (Some (failMsg m
         (Errorf_w (''failed to create HTTP request: '' @ e) (Foreign e)))),
      carrier = h, target_value = None, trace = [], final_body = None\<rparr>"
  using assms by (simp add: executor_def newRequest_fail)

lemma executor_transport_failure:
  assumes "nr m u = Inr u'"
    and "Client_Do (httpClient c) (wire_request m u' cx p h) = (hm, ro, Some e)"
  shows "executor nr c cx m u p v h =
     \<lparr>result = Return (Some (Errorf_w
         (''failed to make request ['' @ m @ '':'' @ u' @ '']: '' @ e) (Foreign e))),
      carrier = shared h hm, target_value = None,
      trace = request_log c (built_request m u' p) @ [ClientDo (wire_request m u' cx p h)],
      final_body = map_option resp_Body ro\<rparr>"
  using assms
  by (simp add: executor_def newRequest_ok doRequest_def wire_header do_failed)
     (simp add: wire_request_def)

lemma executor_status:
  assumes "nr m u = Inr u'"
    and "Client_Do (httpClient c) (wire_request m u' cx p h) = (hm, Some rs, None)"
    and "\<not> success_status (StatusCode rs)"
  shows "executor nr c cx m u p v h =
     \<lparr>result = Return (Some (status_error (StatusCode rs) (unread (resp_Body rs)))),
      carrier = shared h hm, target_value = None,
      trace = request_log c (built_request m u' p) @ [ClientDo (wire_request m u' cx p h)]
                @ response_log c rs,
      final_body = Some \<lparr>unread = [], closed = True\<rparr>\<rparr>"
  using assms
  by (simp add: executor_def newRequest_ok doRequest_def wire_header do_status)

lemma executor_discard:
  assumes "nr m u = Inr u'"
    and "Client_Do (httpClient c) (wire_request m u' cx p h) = (hm, Some rs, None)"
    and "success_status (StatusCode rs)"
  shows "executor nr c cx m u p None h =
     \<lparr>result = Return None,
      carrier = map_option (\<lambda>x. resp_Header rs) h, target_value = None,
      trace = request_log c (built_request m u' p) @ [ClientDo (wire_request m u' cx p h)]
                @ response_log c rs,
      final_body = Some \<lparr>unread = [], closed = True\<rparr>\<rparr>"
  using assms
  by (simp add: executor_def newRequest_ok doRequest_def wire_header do_success
      io_ReadAll_def Close_def Clone_def split: option.splits)

lemma executor_decode:
  assumes "nr m u = Inr u'"
    and "Client_Do (httpClient c) (wire_request m u' cx p h) = (hm, Some rs, None)"
    and "success_status (StatusCode rs)"
  shows "executor nr c cx m u p (Some t) h =
     (let d = t (unread (resp_Body rs)) in
      \<lparr>result = Return (case failure d of None \<Rightarrow> None
          | Some e \<Rightarrow> Some (Errorf_w
              (''could not parse response body: '' @ e @ '' ['' @ m @ '':'' @ u' @ ''] ''
                 @ take (consumed d) (unread (resp_Body rs))) (Foreign e))),
       carrier = map_option (\<lambda>x. resp_Header rs) h, target_value = Some (stored d),
       trace = request_log c (built_request m u' p) @ [ClientDo (wire_request m u' cx p h)]
                 @ response_log c rs,
       final_body = Some \<lparr>unread = drop (consumed d) (unread (resp_Body rs)),
                          closed = True\<rparr>\<rparr>)"
  using assms
  by (simp add: executor_def newRequest_ok doRequest_def wire_header do_success
      Decode_tee_def Close_def Clone_def Let_def wire_request_def split: option.splits)

subsection \<open>Texts\<close>

lemma has_prefix_append: "has_prefix (s @ t) s"
  by (induction s) simp_all

lemma contains_prefix: "has_prefix s sub \<Longrightarrow> contains s sub"
  by (cases s; cases sub) simp_all

lemma contains_append: "contains (pre @ sub @ post) sub"
proof (induction pre)
  case Nil
  show ?case using contains_prefix [OF has_prefix_append] by simp
next
  case (Cons c pre)
  then show ?case by simp
qed

lemma contains_end: "contains (pre @ sub) sub"
  using contains_append [of pre sub "[]"] by simp

lemma has_prefix_length: "has_prefix s sub \<Longrightarrow> length sub \<le> length s"
  by (induction s sub rule: has_prefix.induct) simp_all

lemma contains_length: "contains s sub \<Longrightarrow> length sub \<le> length s"
proof (induction s)
  case Nil
  then show ?case by simp
next
  case (Cons c cs)
  then show ?case using has_prefix_length [of "c # cs" sub] by auto
qed

subsection \<open>Case analysis of a call\<close>

lemma executor_cases [case_names construction failed status discard decode]:
  assumes "\<And>e. nr m u = Inl e \<Longrightarrow> P"
    and "\<And>u' hm e. nr m u = Inr u'
           \<Longrightarrow> Client_Do (httpClient c) (wire_request m u' cx p h) = (hm, None, Some e) \<Longrightarrow> P"
    and "\<And>u' hm rs. nr m u = Inr u'
           \<Longrightarrow> Client_Do (httpClient c) (wire_request m u' cx p h) = (hm, Some rs, None)
           \<Longrightarrow> \<not> success_status (StatusCode rs) \<Longrightarrow> P"
    and "\<And>u' hm rs. nr m u = Inr u'
           \<Longrightarrow> Client_Do (httpClient c) (wire_request m u' cx p h) = (hm, Some rs, None)
           \<Longrightarrow> success_status (StatusCode rs) \<Longrightarrow> v = None \<Longrightarrow> P"
    and "\<And>u' hm rs t. nr m u = Inr u'
           \<Longrightarrow> Client_Do (httpClient c) (wire_request m u' cx p h) = (hm, Some rs, None)
           \<Longrightarrow> success_status (StatusCode rs) \<Longrightarrow> v = Some t \<Longrightarrow> P"
  shows P
proof (cases "nr m u")
  case (Inl e)
  then show ?thesis by (rule assms(1))
next
  case (Inr u')
  show ?thesis
  proof (cases rule: Client_Do_cases [of "httpClient c" "wire_request m u' cx p h"])
    case (failed hm e)
    with Inr show ?thesis by (rule assms(2))
  next
    case (answered hm rs)
    show ?thesis
    proof (cases "success_status (StatusCode rs)")
      case False
      with Inr answered show ?thesis by (rule assms(3))
    next
      case True
      show ?thesis
      proof (cases v)
        case None
        with Inr answered True show ?thesis by (rule assms(4))
      next
        case (Some t)
        with Inr answered True show ?thesis by (rule assms(5))
      qed
    qed
  qed
qed

lemma executor_trace:
  assumes "nr m u = Inr u'"
  shows "trace (executor nr c cx m u p v h) =
           request_log c (built_request m u' p) @ [ClientDo (wire_request m u' cx p h)]
             @ (case Client_Do (httpClient c) (wire_request m u' cx p h) of
                  (hm, Some rs, None) \<Rightarrow> response_log c rs
                | (hm, ro, eo) \<Rightarrow> [])"
proof (cases rule: executor_cases [where nr = nr and m = m and u = u and c = c and cx = cx
      and p = p and h = h and v = v])
  case (construction e)
  with assms show ?thesis by simp
next
  case (failed u' hm e)
  with assms show ?thesis by (simp add: executor_transport_failure)
next
  case (status u' hm rs)
  with assms show ?thesis by (simp add: executor_status)
next
  case (discard u' hm rs)
  with assms show ?thesis by (simp add: executor_discard)
next
  case (decode u' hm rs t)
  with assms show ?thesis by (simp add: executor_decode Let_def)
qed

lemma executor_carrier:
  "carrier (executor nr c cx m u p v h) =
     (case nr m u of
        Inl e \<Rightarrow> h
      | Inr u' \<Rightarrow>
          (case Client_Do (httpClient c) (wire_request m u' cx p h) of
             (hm, Some rs, None) \<Rightarrow>
               if success_status (StatusCode rs) then map_option (\<lambda>x. resp_Header rs) h
               else shared h hm
           | (hm, ro, eo) \<Rightarrow> shared h hm))"
proof (cases rule: executor_cases [where nr = nr and m = m and u = u and c = c and cx = cx
      and p = p and h = h and v = v])
  case (construction e)
  then show ?thesis by (simp add: executor_construction)
next
  case (failed u' hm e)
  then show ?thesis by (simp add: executor_transport_failure)
next
  case (status u' hm rs)
  then show ?thesis by (simp add: executor_status)
next
  case (discard u' hm rs)
  then show ?thesis by (simp add: executor_discard)
next
  case (decode u' hm rs t)
  then show ?thesis by (simp add: executor_decode Let_def)
qed

lemma status_error_not_decode: "\<not> DecodeError (status_error sc b)"
  by (simp add: status_error_def)

lemma executor_no_target:
  "target_value (executor nr c cx m u p None h :: 'v outcome) = None
   \<and> (\<forall>x. result (executor nr c cx m u p None h :: 'v outcome) = Return (Some x)
          \<longrightarrow> \<not> DecodeError x)"
proof (cases rule: executor_cases [where nr = nr and m = m and u = u and c = c and cx = cx
      and p = p and h = h and v = "None :: 'v target option"])
  case (construction e)
  then show ?thesis by (simp add: executor_construction failMsg_def)
next
  case (failed u' hm e)
  then show ?thesis by (simp add: executor_transport_failure)
next
  case (status u' hm rs)
  then show ?thesis by (simp add: executor_status status_error_not_decode)
next
  case (discard u' hm rs)
  then show ?thesis by (simp add: executor_discard)
next
  case (decode u' hm rs t)
  then show ?thesis by simp
qed

lemma status_error_not_nil: "\<not> errors_Is (status_error sc b) ErrNilResponse"
  by (simp add: status_error_def)

text \<open>No entry point panics, and none returns \<open>ErrNilResponse\<close>.\<close>

lemma executor_returns:
  "\<exists>r. result (executor nr c cx m u p v h) = Return r
       \<and> (\<forall>x. r = Some x \<longrightarrow> \<not> errors_Is x ErrNilResponse)"
proof (cases rule: executor_cases [where nr = nr and m = m and u = u and c = c and cx = cx
      and p = p and h = h and v = v])
  case (construction e)
  then show ?thesis by (simp add: executor_construction failMsg_def)
next
  case (failed u' hm e)
  then show ?thesis by (simp add: executor_transport_failure)
next
  case (status u' hm rs)
  then show ?thesis by (simp add: executor_status status_error_not_nil)
next
  case (discard u' hm rs)
  then show ?thesis by (simp add: executor_discard)
next
  case (decode u' hm rs t)
  then show ?thesis by (auto simp add: executor_decode Let_def split: option.splits)
qed

lemmas run_defs =
  call_executor executor_def newRequest_def http_NewRequest_def doRequest_def do_def
  Client_Do_def shared_def plain_def
  DumpRequest_def DumpResponse_def WithContext_def Clone_def io_ReadAll_def Close_def
  Decode_tee_def New_def failMsg_def status_error_def Let_def
  accept_url_def respond_def refuse_def reject_json_def

section \<open>Status classification\<close>

text \<open>
  Claim C1, amended.  For every entry point, once the request is constructed:
  \<^item> if \<^verbatim>\<open>Do\<close> reports a failure, the call returns an error whose text names the method,
    the URL and the cause, which wraps the cause and is not marked Retriable;
  \<^item> if the transport yields no response and no error, the HTTP client reports that as a
    failure of its own, so the call returns such an error again; no call panics, and no
    call returns \<open>ErrNilResponse\<close>;
  \<^item> if the status is 200, 201, 202 or 204, classification is success: the call returns
    no error when no decode target is in use, and no error other than a decode error
    otherwise;
  \<^item> 400 gives \<open>ErrBadRequest\<close>, 401 and 403 \<open>ErrUserAccessDenied\<close>, 404 \<open>ErrNotFound\<close>,
    not Retriable; 422, 429, 500, 502, 503 and 504 give \<open>ErrUnprocessableEntity\<close>,
    \<open>ErrTooManyRequests\<close>, \<open>ErrInternalServerError\<close>, \<open>ErrBadGateway\<close>,
    \<open>ErrServiceUnavailable\<close> and \<open>ErrGatewayTimeout\<close>, each joined with \<open>ErrRetriable\<close>;
    every other status that is not a success status gives \<open>ErrUnhandled\<close> joined with an
    error whose text carries the status code and the body, not Retriable.
\<close>

theorem failure_and_status_classification:
  assumes "nr (method_of vb) u = Inr u'"
    and "W = wire_request (method_of vb) u' cx (if vb = GET then None else p) h"
    and "Client_Do (httpClient c) W = (hm, ro, eo)"
    and "out = call vb nr c cx u p v h"
  shows
    "(\<forall>e. eo = Some e \<longrightarrow>
        (\<exists>x. result out = Return (Some x)
            \<and> Error x = ''failed to make request ['' @ method_of vb @ '':'' @ u' @ '']: '' @ e
            \<and> contains (Error x) (method_of vb) \<and> contains (Error x) u'
            \<and> contains (Error x) e \<and> wraps x (Foreign e) \<and> \<not> retriable x))
     \<and> (RoundTrip (httpClient c) (W\<lparr>req_Header := cookie_header (httpClient c) W\<rparr>)
           = (None, None)
         \<longrightarrow> ro = None \<and> eo = Some (nil_error (httpClient c) W))
     \<and> result out \<noteq> Panic
     \<and> (\<forall>x. result out = Return (Some x) \<longrightarrow> \<not> errors_Is x ErrNilResponse)
     \<and> (\<forall>rs. ro = Some rs \<and> eo = None \<longrightarrow>
          (success_status (StatusCode rs) \<longrightarrow>
             (vb = HEAD \<or> v = None \<longrightarrow> result out = Return None)
             \<and> (\<forall>x. result out = Return (Some x) \<longrightarrow> DecodeError x))
          \<and> (StatusCode rs = 400 \<longrightarrow> result out = Return (Some (Sentinel ErrBadRequest)))
          \<and> (StatusCode rs = 401 \<or> StatusCode rs = 403 \<longrightarrow>
                result out = Return (Some (Sentinel ErrUserAccessDenied)))
          \<and> (StatusCode rs = 404 \<longrightarrow> result out = Return (Some (Sentinel ErrNotFound)))
          \<and> (StatusCode rs = 422 \<longrightarrow>
                result out = Return (Some (Join (Sentinel ErrUnprocessableEntity)
                                                (Sentinel ErrRetriable))))
          \<and> (StatusCode rs = 429 \<longrightarrow>
                result out = Return (Some (Join (Sentinel ErrTooManyRequests)
                                                (Sentinel ErrRetriable))))
          \<and> (StatusCode rs = 500 \<longrightarrow>
                result out = Return (Some (Join (Sentinel ErrInternalServerError)
                                                (Sentinel ErrRetriable))))
          \<and> (StatusCode rs = 502 \<longrightarrow>
                result out = Return (Some (Join (Sentinel ErrBadGateway)
                                                (Sentinel ErrRetriable))))
          \<and> (StatusCode rs = 503 \<longrightarrow>
                result out = Return (Some (Join (Sentinel ErrServiceUnavailable)
                                                (Sentinel ErrRetriable))))
          \<and> (StatusCode rs = 504 \<longrightarrow>
                result out = Return (Some (Join (Sentinel ErrGatewayTimeout)
                                                (Sentinel ErrRetriable))))
          \<and> (\<not> success_status (StatusCode rs)
               \<and> StatusCode rs \<notin> {400, 401, 403, 404, 422, 429, 500, 502, 503, 504} \<longrightarrow>
                result out = Return (Some (Join
                  (Errorf (''request failed, '' @ fmt_d (StatusCode rs)
                            @ '' status code received: '' @ unread (resp_Body rs)))
                  (Sentinel ErrUnhandled)))))
     \<and> \<not> retriable (Sentinel ErrBadRequest)
     \<and> \<not> retriable (Sentinel ErrUserAccessDenied)
     \<and> \<not> retriable (Sentinel ErrNotFound)
     \<and> retriable (Join (Sentinel ErrUnprocessableEntity) (Sentinel ErrRetriable))
     \<and> retriable (Join (Sentinel ErrTooManyRequests) (Sentinel ErrRetriable))
     \<and> retriable (Join (Sentinel ErrInternalServerError) (Sentinel ErrRetriable))
     \<and> retriable (Join (Sentinel ErrBadGateway) (Sentinel ErrRetriable))
     \<and> retriable (Join (Sentinel ErrServiceUnavailable) (Sentinel ErrRetriable))
     \<and> retriable (Join (Sentinel ErrGatewayTimeout) (Sentinel ErrRetriable))
     \<and> (\<forall>m. \<not> retriable (Join (Errorf m) (Sentinel ErrUnhandled)))"
proof -
  let ?ex = "executor nr c cx (method_of vb) u (payload_of vb p) (target_of vb v) h"
  have out: "out = ?ex"
    using assms(4) by (simp add: call_executor)
  have nr: "nr (method_of vb) u = Inr u'"
    by (rule assms(1))
  have d: "Client_Do (httpClient c) (wire_request (method_of vb) u' cx (payload_of vb p) h)
             = (hm, ro, eo)"
    using assms(2,3) by (simp add: payload_of_eq)
  have A: "\<forall>e. eo = Some e \<longrightarrow>
        (\<exists>x. result out = Return (Some x)
            \<and> Error x = ''failed to make request ['' @ method_of vb @ '':'' @ u' @ '']: '' @ e
            \<and> contains (Error x) (method_of vb) \<and> contains (Error x) u'
            \<and> contains (Error x) e \<and> wraps x (Foreign e) \<and> \<not> retriable x)"
  proof (intro allI impI)
    fix e
    assume e: "eo = Some e"
    let ?m = "''failed to make request ['' @ method_of vb @ '':'' @ u' @ '']: '' @ e"
    have r: "result out = Return (Some (Errorf_w ?m (Foreign e)))"
      using nr d e by (simp add: out executor_transport_failure)
    have c1: "contains ?m (method_of vb)"
      using contains_append [of "''failed to make request [''" "method_of vb"] by simp
    have c2: "contains ?m u'"
      using contains_append [of "''failed to make request ['' @ method_of vb @ '':''" u']
      by simp
    have c3: "contains ?m e"
      using contains_end
        [of "''failed to make request ['' @ method_of vb @ '':'' @ u' @ '']: ''" e]
      by simp
    show "\<exists>x. result out = Return (Some x)
            \<and> Error x = ''failed to make request ['' @ method_of vb @ '':'' @ u' @ '']: '' @ e
            \<and> contains (Error x) (method_of vb) \<and> contains (Error x) u'
            \<and> contains (Error x) e \<and> wraps x (Foreign e) \<and> \<not> retriable x"
      using r c1 c2 c3 by (simp add: wraps_def retriable_def)
  qed
  have B: "RoundTrip (httpClient c) (W\<lparr>req_Header := cookie_header (httpClient c) W\<rparr>)
           = (None, None)
         \<longrightarrow> ro = None \<and> eo = Some (nil_error (httpClient c) W)"
    using assms(3) Client_Do_nil [of "httpClient c" W] by auto
  have C: "result out \<noteq> Panic
     \<and> (\<forall>x. result out = Return (Some x) \<longrightarrow> \<not> errors_Is x ErrNilResponse)"
    using executor_returns [of nr c cx "method_of vb" u "payload_of vb p" "target_of vb v" h]
    by (auto simp add: out)
  have D: "(success_status (StatusCode rs) \<longrightarrow>
             (vb = HEAD \<or> v = None \<longrightarrow> result out = Return None)
             \<and> (\<forall>x. result out = Return (Some x) \<longrightarrow> DecodeError x))
          \<and> (\<not> success_status (StatusCode rs) \<longrightarrow>
                result out
                  = Return (Some (status_error (StatusCode rs) (unread (resp_Body rs)))))"
    if "ro = Some rs \<and> eo = None" for rs
  proof (cases "success_status (StatusCode rs)")
    case False
    with nr d that show ?thesis
      by (simp add: out executor_status)
  next
    case True
    show ?thesis
    proof (cases "target_of vb v")
      case None
      with nr d that True show ?thesis
        by (auto simp add: out executor_discard target_of_eq split: if_splits)
    next
      case (Some t)
      with nr d that True show ?thesis
        using has_prefix_append [of "''could not parse response body: ''"]
        by (auto simp add: out executor_decode Let_def target_of_eq
            split: if_splits option.splits)
    qed
  qed
  have E: "(StatusCode rs = 400 \<longrightarrow> result out = Return (Some (Sentinel ErrBadRequest)))
          \<and> (StatusCode rs = 401 \<or> StatusCode rs = 403 \<longrightarrow>
                result out = Return (Some (Sentinel ErrUserAccessDenied)))
          \<and> (StatusCode rs = 404 \<longrightarrow> result out = Return (Some (Sentinel ErrNotFound)))
          \<and> (StatusCode rs = 422 \<longrightarrow>
                result out = Return (Some (Join (Sentinel ErrUnprocessableEntity)
                                                (Sentinel ErrRetriable))))
          \<and> (StatusCode rs = 429 \<longrightarrow>
                result out = Return (Some (Join (Sentinel ErrTooManyRequests)
                                                (Sentinel ErrRetriable))))
          \<and> (StatusCode rs = 500 \<longrightarrow>
                result out = Return (Some (Join (Sentinel ErrInternalServerError)
                                                (Sentinel ErrRetriable))))
          \<and> (StatusCode rs = 502 \<longrightarrow>
                result out = Return (Some (Join (Sentinel ErrBadGateway)
                                                (Sentinel ErrRetriable))))
          \<and> (StatusCode rs = 503 \<longrightarrow>
                result out = Return (Some (Join (Sentinel ErrServiceUnavailable)
                                                (Sentinel ErrRetriable))))
          \<and> (StatusCode rs = 504 \<longrightarrow>
                result out = Return (Some (Join (Sentinel ErrGatewayTimeout)
                                                (Sentinel ErrRetriable))))
          \<and> (\<not> success_status (StatusCode rs)
               \<and> StatusCode rs \<notin> {400, 401, 403, 404, 422, 429, 500, 502, 503, 504} \<longrightarrow>
                result out = Return (Some (Join
                  (Errorf (''request failed, '' @ fmt_d (StatusCode rs)
                            @ '' status code received: '' @ unread (resp_Body rs)))
                  (Sentinel ErrUnhandled))))"
    if "ro = Some rs \<and> eo = None" for rs
  proof (cases "success_status (StatusCode rs)")
    case True
    then show ?thesis by (auto simp add: success_status_def)
  next
    case False
    with D [OF that] have "result out
        = Return (Some (status_error (StatusCode rs) (unread (resp_Body rs))))"
      by simp
    then show ?thesis by (simp add: status_error_def)
  qed
  have F: "\<not> retriable (Sentinel ErrBadRequest)
     \<and> \<not> retriable (Sentinel ErrUserAccessDenied)
     \<and> \<not> retriable (Sentinel ErrNotFound)
     \<and> retriable (Join (Sentinel ErrUnprocessableEntity) (Sentinel ErrRetriable))
     \<and> retriable (Join (Sentinel ErrTooManyRequests) (Sentinel ErrRetriable))
     \<and> retriable (Join (Sentinel ErrInternalServerError) (Sentinel ErrRetriable))
     \<and> retriable (Join (Sentinel ErrBadGateway) (Sentinel ErrRetriable))
     \<and> retriable (Join (Sentinel ErrServiceUnavailable) (Sentinel ErrRetriable))
     \<and> retriable (Join (Sentinel ErrGatewayTimeout) (Sentinel ErrRetriable))
     \<and> (\<forall>m. \<not> retriable (Join (Errorf m) (Sentinel ErrUnhandled)))"
    by (simp add: retriable_def)
  have DE: "(success_status (StatusCode rs) \<longrightarrow>
             (vb = HEAD \<or> v = None \<longrightarrow> result out = Return None)
             \<and> (\<forall>x. result out = Return (Some x) \<longrightarrow> DecodeError x))
          \<and> (StatusCode rs = 400 \<longrightarrow> result out = Return (Some (Sentinel ErrBadRequest)))
          \<and> (StatusCode rs = 401 \<or> StatusCode rs = 403 \<longrightarrow>
                result out = Return (Some (Sentinel ErrUserAccessDenied)))
          \<and> (StatusCode rs = 404 \<longrightarrow> result out = Return (Some (Sentinel ErrNotFound)))
          \<and> (StatusCode rs = 422 \<longrightarrow>
                result out = Return (Some (Join (Sentinel ErrUnprocessableEntity)
                                                (Sentinel ErrRetriable))))
          \<and> (StatusCode rs = 429 \<longrightarrow>
                result out = Return (Some (Join (Sentinel ErrTooManyRequests)
                                                (Sentinel ErrRetriable))))
          \<and> (StatusCode rs = 500 \<longrightarrow>
                result out = Return (Some (Join (Sentinel ErrInternalServerError)
                                                (Sentinel ErrRetriable))))
          \<and> (StatusCode rs = 502 \<longrightarrow>
                result out = Return (Some (Join (Sentinel ErrBadGateway)
                                                (Sentinel ErrRetriable))))
          \<and> (StatusCode rs = 503 \<longrightarrow>
                result out = Return (Some (Join (Sentinel ErrServiceUnavailable)
                                                (Sentinel ErrRetriable))))
          \<and> (StatusCode rs = 504 \<longrightarrow>
                result out = Return (Some (Join (Sentinel ErrGatewayTimeout)
                                                (Sentinel ErrRetriable))))
          \<and> (\<not> success_status (StatusCode rs)
               \<and> StatusCode rs \<notin> {400, 401, 403, 404, 422, 429, 500, 502, 503, 504} \<longrightarrow>
                result out = Return (Some (Join
                  (Errorf (''request failed, '' @ fmt_d (StatusCode rs)
                            @ '' status code received: '' @ unread (resp_Body rs)))
                  (Sentinel ErrUnhandled))))"
    if "ro = Some rs \<and> eo = None" for rs
    by (rule conjI [OF D [OF that, THEN conjunct1] E [OF that]])
  show ?thesis
    apply (rule conjI [OF A])
    apply (rule conjI [OF B])
    apply (rule conjI [OF C [THEN conjunct1]])
    apply (rule conjI [OF C [THEN conjunct2]])
    apply (rule conjI [OF _ F])
    apply (intro allI impI)
    apply (erule DE)
    done
qed

theorem failure_and_status_classification_witness:
  "(\<exists>x. result (call GET accept_url (New refuse None None) Background
              ''https://my.path/test'' None (None :: unit target option) None)
            = Return (Some x)
        \<and> Error x = ''failed to make request [GET:https://my.path/test]: connection refused''
        \<and> \<not> retriable x)
   \<and> result (call POST accept_url (New refuse (Some (respond 404 [] ''gone'')) None)
         Background ''https://my.path/test'' (Some ''{}'') (Some reject_json) None)
       = Return (Some (Sentinel ErrNotFound))
   \<and> result (call PUT accept_url (New refuse (Some (respond 503 [] ''busy'')) None)
         Background ''https://my.path/test'' (Some ''{}'') (Some reject_json) None)
       = Return (Some (Join (Sentinel ErrServiceUnavailable) (Sentinel ErrRetriable)))
   \<and> result (call DELETE accept_url (New refuse (Some (respond 410 [] ''gone'')) None)
         Background ''https://my.path/test'' None (Some reject_json) None)
       = Return (Some (Join (Errorf ''request failed, 410 status code received: gone'')
                            (Sentinel ErrUnhandled)))
   \<and> result (call HEAD accept_url (New refuse (Some (respond 200 [] [])) None)
         Background ''https://my.path/test'' None (None :: unit target option) None)
       = Return None"
proof -
  let ?u = "''https://my.path/test''"
  have n: "accept_url (method_of vb) ?u = Inr ?u" for vb
    by (simp add: accept_url_def)
  have d0: "Client_Do (httpClient (New refuse None None))
              (wire_request (method_of GET) ?u Background (if GET = GET then None else None) None)
            = ([], None, Some ''connection refused'')"
    by (simp add: Client_Do_def New_def refuse_def plain_def wire_request_def)
  have d: "Client_Do (httpClient (New refuse (Some (respond sc [] b)) None))
              (wire_request (method_of vb) ?u Background p None)
            = ([], Some \<lparr>StatusCode = sc, resp_Header = [],
                          resp_Body = \<lparr>unread = b, closed = False\<rparr>\<rparr>, None)"
    for sc b vb p
    by (simp add: Client_Do_def New_def respond_def plain_def wire_request_def)
  have 1: "\<exists>x. result (call GET accept_url (New refuse None None) Background
              ?u None (None :: unit target option) None) = Return (Some x)
        \<and> Error x = ''failed to make request [GET:https://my.path/test]: connection refused''
        \<and> \<not> retriable x"
    using failure_and_status_classification [where nr = accept_url and vb = GET and u = ?u
        and u' = ?u and c = "New refuse None None" and cx = Background and p = None
        and h = None and v = "None :: unit target option" and hm = "[]" and ro = None
        and eo = "Some ''connection refused''", OF n refl d0 refl, THEN conjunct1]
    by auto
  have 2: "result (call POST accept_url (New refuse (Some (respond 404 [] ''gone'')) None)
         Background ?u (Some ''{}'') (Some reject_json) None)
       = Return (Some (Sentinel ErrNotFound))"
    using failure_and_status_classification [where nr = accept_url and vb = POST and u = ?u
        and u' = ?u and c = "New refuse (Some (respond 404 [] ''gone'')) None"
        and cx = Background and p = "Some ''{}''" and h = None and v = "Some reject_json"
        and hm = "[]" and eo = None
        and ro = "Some \<lparr>StatusCode = 404, resp_Header = [],
                          resp_Body = \<lparr>unread = ''gone'', closed = False\<rparr>\<rparr>",
        OF n refl _ refl]
      d [of 404 "''gone''" POST "Some ''{}''"]
    by simp
  have 3: "result (call PUT accept_url (New refuse (Some (respond 503 [] ''busy'')) None)
         Background ?u (Some ''{}'') (Some reject_json) None)
       = Return (Some (Join (Sentinel ErrServiceUnavailable) (Sentinel ErrRetriable)))"
    using failure_and_status_classification [where nr = accept_url and vb = PUT and u = ?u
        and u' = ?u and c = "New refuse (Some (respond 503 [] ''busy'')) None"
        and cx = Background and p = "Some ''{}''" and h = None and v = "Some reject_json"
        and hm = "[]" and eo = None
        and ro = "Some \<lparr>StatusCode = 503, resp_Header = [],
                          resp_Body = \<lparr>unread = ''busy'', closed = False\<rparr>\<rparr>",
        OF n refl _ refl]
      d [of 503 "''busy''" PUT "Some ''{}''"]
    by simp
  have 4: "result (call DELETE accept_url (New refuse (Some (respond 410 [] ''gone'')) None)
         Background ?u None (Some reject_json) None)
       = Return (Some (Join (Errorf ''request failed, 410 status code received: gone'')
                            (Sentinel ErrUnhandled)))"
    using failure_and_status_classification [where nr = accept_url and vb = DELETE and u = ?u
        and u' = ?u and c = "New refuse (Some (respond 410 [] ''gone'')) None"
        and cx = Background and p = None and h = None and v = "Some reject_json"
        and hm = "[]" and eo = None
        and ro = "Some \<lparr>StatusCode = 410, resp_Header = [],
                          resp_Body = \<lparr>unread = ''gone'', closed = False\<rparr>\<rparr>",
        OF n refl _ refl]
      d [of 410 "''gone''" DELETE None]
    by (simp add: success_status_def fmt_d_def fmt_digits.simps)
  have 5: "result (call HEAD accept_url (New refuse (Some (respond 200 [] [])) None)
         Background ?u None (None :: unit target option) None) = Return None"
    using failure_and_status_classification [where nr = accept_url and vb = HEAD and u = ?u
        and u' = ?u and c = "New refuse (Some (respond 200 [] [])) None"
        and cx = Background and p = None and h = None and v = "None :: unit target option"
        and hm = "[]" and eo = None
        and ro = "Some \<lparr>StatusCode = 200, resp_Header = [],
                          resp_Body = \<lparr>unread = [], closed = False\<rparr>\<rparr>",
        OF n refl _ refl]
      d [of 200 "[]" HEAD None]
    by (simp add: success_status_def)
  show ?thesis
    using 1 2 3 4 5 by (intro conjI)
qed

text \<open>
  A transport that yields neither a response nor an error: the call returns the error of
  a failed request, and not \<open>ErrNilResponse\<close>.
\<close>

theorem nil_response_is_transport_error:
  "RoundTrip (httpClient (New refuse (Some silent) None))
     \<lparr>req_Method = ''GET'', req_URL = ''https://my.path/test'', req_Header = [],
      req_Body = None, req_Context = Background\<rparr> = (None, None)
   \<and> result (call GET accept_url (New refuse (Some silent) None) Background
         ''https://my.path/test'' None (None :: unit target option) None)
       = Return (Some (Errorf_w
           ''failed to make request [GET:https://my.path/test]: http: RoundTripper implementation returned a nil *Response with a nil error''
           (Foreign ''http: RoundTripper implementation returned a nil *Response with a nil error'')))
   \<and> result (call GET accept_url (New refuse (Some silent) None) Background
         ''https://my.path/test'' None (None :: unit target option) None)
       \<noteq> Return (Some (Sentinel ErrNilResponse))
   \<and> \<not> errors_Is (Errorf_w
           ''failed to make request [GET:https://my.path/test]: http: RoundTripper implementation returned a nil *Response with a nil error''
           (Foreign ''http: RoundTripper implementation returned a nil *Response with a nil error''))
         ErrNilResponse"
  by (simp add: run_defs silent_def)

section \<open>Response handling\<close>

text \<open>
  Claim C2, amended.  When a header carrier is supplied and the transport returns a
  response whose status is 200, 201, 202 or 204, the carrier holds after the call exactly
  the header set of the response, whatever it held before, whether or not a decode target
  was supplied (and whether or not decoding succeeded), for every entry point.
\<close>

theorem carrier_replaced_on_success:
  assumes "nr (method_of vb) u = Inr u'"
    and "Client_Do (httpClient c)
           (wire_request (method_of vb) u' cx (if vb = GET then None else p) (Some h))
           = (hm, Some rs, None)"
    and "success_status (StatusCode rs)"
  shows "carrier (call vb nr c cx u p v (Some h)) = Some (resp_Header rs)"
  using assms by (simp add: call_executor payload_of_eq executor_carrier)

theorem carrier_replaced_on_success_witness:
  "carrier (call HEAD accept_url (New refuse (Some (respond 200
       [(''Location'', [''https://this.location/''])] ''{}'')) None) Background
       ''https://my.path/test'' (Some ''{}'') (None :: unit target option)
       (Some [(''Content-Type'', [''application/json''])]))
     = Some [(''Location'', [''https://this.location/''])]"
  using carrier_replaced_on_success [where nr = accept_url and vb = HEAD
      and u = "''https://my.path/test''" and u' = "''https://my.path/test''"
      and c = "New refuse (Some (respond 200
       [(''Location'', [''https://this.location/''])] ''{}'')) None"
      and cx = Background and p = "Some ''{}''"
      and h = "[(''Content-Type'', [''application/json''])]"
      and hm = "[(''Content-Type'', [''application/json''])]"
      and v = "None :: unit target option"
      and rs = "\<lparr>StatusCode = 200, resp_Header = [(''Location'', [''https://this.location/''])],
                 resp_Body = \<lparr>unread = ''{}'', closed = False\<rparr>\<rparr>"]
  by (simp add: accept_url_def New_def respond_def plain_def Client_Do_def wire_request_def
      success_status_def)

theorem carrier_kept_on_203:
  "(200 :: int) \<le> 203 \<and> (203 :: int) < 300
   \<and> carrier (call POST accept_url (New refuse (Some (respond 203
       [(''Location'', [''https://this.location/''])] ''{}'')) None) Background
       ''https://my.path/test'' (Some ''{}'') (None :: unit target option)
       (Some [(''Content-Type'', [''application/json''])]))
     = Some [(''Content-Type'', [''application/json''])]
   \<and> carrier (call POST accept_url (New refuse (Some (respond 203
       [(''Location'', [''https://this.location/''])] ''{}'')) None) Background
       ''https://my.path/test'' (Some ''{}'') (None :: unit target option)
       (Some [(''Content-Type'', [''application/json''])]))
     \<noteq> Some [(''Location'', [''https://this.location/''])]"
  by (simp add: run_defs)

text \<open>
  Claim C3, amended.  For every call with a decode target supplied, when the transport
  returns a response whose status is 200, 201, 202 or 204 and the decoder reports an error
  on its body (as it does not on every body that is not valid JSON), the call returns a
  decode error: its text contains the decoder's error, the method and the URL of the
  request, and, when the decoder has read the body to its end, the body text; it wraps
  the decoder's error and is not marked Retriable.
\<close>

theorem decode_failure:
  assumes "nr (method_of vb) u = Inr u'"
    and "Client_Do (httpClient c)
           (wire_request (method_of vb) u' cx (if vb = GET then None else p) h)
           = (hm, Some rs, None)"
    and "success_status (StatusCode rs)"
    and "vb \<noteq> HEAD"
    and "failure (t (unread (resp_Body rs))) = Some e"
  shows "\<exists>x. result (call vb nr c cx u p (Some t) h) = Return (Some x)
           \<and> DecodeError x
           \<and> contains (Error x) e
           \<and> contains (Error x) (method_of vb)
           \<and> contains (Error x) u'
           \<and> (length (unread (resp_Body rs)) \<le> consumed (t (unread (resp_Body rs)))
                \<longrightarrow> contains (Error x) (unread (resp_Body rs)))
           \<and> wraps x (Foreign e)
           \<and> \<not> retriable x"
proof -
  let ?buf = "take (consumed (t (unread (resp_Body rs)))) (unread (resp_Body rs))"
  let ?m = "''could not parse response body: '' @ e @ '' ['' @ method_of vb @ '':''
              @ u' @ ''] '' @ ?buf"
  let ?x = "Errorf_w ?m (Foreign e)"
  have res: "result (call vb nr c cx u p (Some t) h) = Return (Some ?x)"
    using assms by (simp add: call_executor payload_of_eq target_of_eq executor_decode Let_def)
  have k: "DecodeError ?x"
    using has_prefix_append [of "''could not parse response body: ''"] by simp
  have c1: "contains ?m e"
    using contains_append [of "''could not parse response body: ''" e] by simp
  have c2: "contains ?m (method_of vb)"
    using contains_append [of "''could not parse response body: '' @ e @ '' [''" "method_of vb"]
    by simp
  have c3: "contains ?m u'"
    using contains_append
      [of "''could not parse response body: '' @ e @ '' ['' @ method_of vb @ '':''" u']
    by simp
  have c4: "contains ?m ?buf"
    using contains_end
      [of "''could not parse response body: '' @ e @ '' ['' @ method_of vb @ '':'' @ u' @ ''] ''"
          ?buf]
    by simp
  have c5: "length (unread (resp_Body rs)) \<le> consumed (t (unread (resp_Body rs)))
              \<longrightarrow> contains (Error ?x) (unread (resp_Body rs))"
  proof (rule impI)
    assume "length (unread (resp_Body rs)) \<le> consumed (t (unread (resp_Body rs)))"
    then have "?buf = unread (resp_Body rs)"
      by simp
    then show "contains (Error ?x) (unread (resp_Body rs))"
      using contains_end
        [of "''could not parse response body: '' @ e @ '' ['' @ method_of vb @ '':'' @ u' @ ''] ''"
            "unread (resp_Body rs)"]
      by simp
  qed
  have w: "wraps ?x (Foreign e)"
    by (simp add: wraps_def)
  have r: "\<not> retriable ?x"
    by (simp add: retriable_def)
  have "result (call vb nr c cx u p (Some t) h) = Return (Some ?x)
           \<and> DecodeError ?x
           \<and> contains (Error ?x) e
           \<and> contains (Error ?x) (method_of vb)
           \<and> contains (Error ?x) u'
           \<and> (length (unread (resp_Body rs)) \<le> consumed (t (unread (resp_Body rs)))
                \<longrightarrow> contains (Error ?x) (unread (resp_Body rs)))
           \<and> wraps ?x (Foreign e)
           \<and> \<not> retriable ?x"
    using res k c1 c2 c3 c5 w r by simp
  then show ?thesis by (rule exI)
qed

theorem decode_failure_witness:
  "\<exists>x. result (call GET accept_url (New refuse (Some (respond 200 [] ''not json'')) None)
               Background ''https://my.path/test'' None (Some reject_json) None)
           = Return (Some x)
       \<and> DecodeError x
       \<and> contains (Error x) ''invalid character''
       \<and> contains (Error x) ''GET''
       \<and> contains (Error x) ''https://my.path/test''
       \<and> contains (Error x) ''not json''
       \<and> \<not> retriable x"
  using decode_failure [where nr = accept_url and vb = GET and u = "''https://my.path/test''"
      and u' = "''https://my.path/test''"
      and c = "New refuse (Some (respond 200 [] ''not json'')) None"
      and cx = Background and p = None and h = None and hm = "[]" and t = reject_json
      and e = "''invalid character''"
      and rs = "\<lparr>StatusCode = 200, resp_Header = [],
                 resp_Body = \<lparr>unread = ''not json'', closed = False\<rparr>\<rparr>"]
  by (simp add: accept_url_def New_def respond_def plain_def Client_Do_def wire_request_def
      success_status_def reject_json_def) blast

text \<open>
  Three calls on which the claim as first stated fails: a status 203, where the call
  returns the Unhandled error; a body of 1000 bytes that is wrong at its first byte, of
  which the decoder has read 512 when it fails, so that the text of the error does not
  contain the body; and the body \<^verbatim>\<open>{} x\<close>, not valid JSON, whose first value the decoder
  accepts, so that the call returns no error.
\<close>

theorem decode_error_counterexamples:
  "result (call GET accept_url (New refuse (Some (respond 203 [] ''not json'')) None)
               Background ''https://my.path/test'' None (Some reject_json) None)
       = Return (Some (Join (Errorf ''request failed, 203 status code received: not json'')
                            (Sentinel ErrUnhandled)))
   \<and> \<not> DecodeError (Join (Errorf ''request failed, 203 status code received: not json'')
                            (Sentinel ErrUnhandled))
   \<and> result (call GET accept_url
                (New refuse (Some (respond 200 [] (replicate 1000 (CHR ''x'')))) None)
                Background ''https://my.path/test'' None (Some reject_first_read) None)
       = Return (Some (Errorf_w
           (''could not parse response body: invalid character [GET:https://my.path/test] ''
              @ replicate 512 (CHR ''x''))
           (Foreign ''invalid character'')))
   \<and> \<not> contains (Error (Errorf_w
           (''could not parse response body: invalid character [GET:https://my.path/test] ''
              @ replicate 512 (CHR ''x''))
           (Foreign ''invalid character''))) (replicate 1000 (CHR ''x''))
   \<and> result (call GET accept_url (New refuse (Some (respond 200 [] ''{} x'')) None)
               Background ''https://my.path/test'' None (Some accept_first_value) None)
       = Return None"
proof -
  have 1: "result (call GET accept_url (New refuse (Some (respond 203 [] ''not json'')) None)
               Background ''https://my.path/test'' None (Some reject_json) None)
       = Return (Some (Join (Errorf ''request failed, 203 status code received: not json'')
                            (Sentinel ErrUnhandled)))"
    by (simp add: run_defs fmt_d_def fmt_digits.simps)
  have 2: "result (call GET accept_url
                (New refuse (Some (respond 200 [] (replicate 1000 (CHR ''x'')))) None)
                Background ''https://my.path/test'' None (Some reject_first_read) None)
       = Return (Some (Errorf_w
           (''could not parse response body: invalid character [GET:https://my.path/test] ''
              @ replicate 512 (CHR ''x''))
           (Foreign ''invalid character'')))"
    by (simp add: run_defs reject_first_read_def)
  have 3: "\<not> contains (Error (Errorf_w
           (''could not parse response body: invalid character [GET:https://my.path/test] ''
              @ replicate 512 (CHR ''x''))
           (Foreign ''invalid character''))) (replicate 1000 (CHR ''x''))"
    using contains_length
      [of "''could not parse response body: invalid character [GET:https://my.path/test] ''
              @ replicate 512 (CHR ''x'')" "replicate 1000 (CHR ''x'')"]
    by auto
  have 4: "result (call GET accept_url (New refuse (Some (respond 200 [] ''{} x'')) None)
               Background ''https://my.path/test'' None (Some accept_first_value) None)
       = Return None"
    by (simp add: run_defs accept_first_value_def)
  show ?thesis
    using 1 2 3 4 by simp
qed

text \<open>
  Claim C4.  Whenever the transport returns a response (and no error), its body is closed
  when the call returns.  If no decode target is in use (none given, or the entry point is
  \<open>Head\<close>) or the status is not a success status, every byte of the body has been read;
  without a decode target on a success status the call returns no error; on any other
  status the returned error is computed from all the bytes of the body.
\<close>

theorem body_read_and_closed:
  assumes "nr (method_of vb) u = Inr u'"
    and "Client_Do (httpClient c)
           (wire_request (method_of vb) u' cx (if vb = GET then None else p) h)
           = (hm, Some rs, None)"
  shows "map_option closed (final_body (call vb nr c cx u p v h)) = Some True
     \<and> (vb = HEAD \<or> v = None \<or> \<not> success_status (StatusCode rs) \<longrightarrow>
          final_body (call vb nr c cx u p v h) = Some \<lparr>unread = [], closed = True\<rparr>)
     \<and> ((vb = HEAD \<or> v = None) \<and> success_status (StatusCode rs) \<longrightarrow>
          result (call vb nr c cx u p v h) = Return None)
     \<and> (\<not> success_status (StatusCode rs) \<longrightarrow>
          result (call vb nr c cx u p v h)
            = Return (Some (status_error (StatusCode rs) (unread (resp_Body rs)))))"
proof (cases "success_status (StatusCode rs)")
  case False
  with assms show ?thesis
    by (simp add: call_executor payload_of_eq executor_status)
next
  case True
  show ?thesis
  proof (cases "target_of vb v")
    case None
    with assms True show ?thesis
      by (simp add: call_executor payload_of_eq executor_discard target_of_eq split: if_splits)
  next
    case (Some t)
    with assms True show ?thesis
      by (simp add: call_executor payload_of_eq executor_decode Let_def target_of_eq
          split: if_splits)
  qed
qed

theorem body_read_and_closed_witness:
  "final_body (call DELETE accept_url (New refuse (Some (respond 200 [] ''{}'')) None)
      Background ''https://my.path/test'' None (None :: unit target option) None)
     = Some \<lparr>unread = [], closed = True\<rparr>
   \<and> result (call DELETE accept_url (New refuse (Some (respond 200 [] ''{}'')) None)
      Background ''https://my.path/test'' None (None :: unit target option) None)
     = Return None
   \<and> final_body (call GET accept_url (New refuse (Some (respond 404 [] ''gone'')) None)
      Background ''https://my.path/test'' None (Some reject_json) None)
     = Some \<lparr>unread = [], closed = True\<rparr>
   \<and> result (call GET accept_url (New refuse (Some (respond 404 [] ''gone'')) None)
      Background ''https://my.path/test'' None (Some reject_json) None)
     = Return (Some (Sentinel ErrNotFound))
   \<and> map_option closed (final_body (call GET accept_url
        (New refuse (Some (respond 200 [] ''not json'')) None)
        Background ''https://my.path/test'' None (Some reject_json) None)) = Some True"
  using body_read_and_closed [where nr = accept_url and vb = DELETE
      and u = "''https://my.path/test''" and u' = "''https://my.path/test''"
      and c = "New refuse (Some (respond 200 [] ''{}'')) None"
      and cx = Background and p = None and h = None and hm = "[]"
      and v = "None :: unit target option"
      and rs = "\<lparr>StatusCode = 200, resp_Header = [],
                 resp_Body = \<lparr>unread = ''{}'', closed = False\<rparr>\<rparr>"]
    body_read_and_closed [where nr = accept_url and vb = GET
      and u = "''https://my.path/test''" and u' = "''https://my.path/test''"
      and c = "New refuse (Some (respond 404 [] ''gone'')) None"
      and cx = Background and p = None and h = None and hm = "[]" and v = "Some reject_json"
      and rs = "\<lparr>StatusCode = 404, resp_Header = [],
                 resp_Body = \<lparr>unread = ''gone'', closed = False\<rparr>\<rparr>"]
    body_read_and_closed [where nr = accept_url and vb = GET
      and u = "''https://my.path/test''" and u' = "''https://my.path/test''"
      and c = "New refuse (Some (respond 200 [] ''not json'')) None"
      and cx = Background and p = None and h = None and hm = "[]" and v = "Some reject_json"
      and rs = "\<lparr>StatusCode = 200, resp_Header = [],
                 resp_Body = \<lparr>unread = ''not json'', closed = False\<rparr>\<rparr>"]
  by (simp add: accept_url_def New_def respond_def plain_def Client_Do_def wire_request_def
      success_status_def status_error_def)

section \<open>Head\<close>

text \<open>
  Claim C5.  \<open>Head\<close> is the common executor with the method HEAD and no decode target,
  as the other five entry points are the executor with their method: the same
  construction, transport and status errors.  \<open>Head\<close> stores no decoded value and never
  returns a decode error; on a success status it returns no error whatever the body is
  (an empty one too), a supplied carrier then holds the header set of the response, and
  the body has been read to its end and closed.
\<close>

theorem Head_never_decodes:
  "(Head nr c cx u p h :: 'v outcome) = executor nr c cx MethodHead u p None h
   \<and> (Post nr c cx u p v h :: 'v outcome) = executor nr c cx MethodPost u p v h
   \<and> (Put nr c cx u p v h :: 'v outcome) = executor nr c cx MethodPut u p v h
   \<and> (Patch nr c cx u p v h :: 'v outcome) = executor nr c cx MethodPatch u p v h
   \<and> (Delete nr c cx u p v h :: 'v outcome) = executor nr c cx MethodDelete u p v h
   \<and> (Get nr c cx u v h :: 'v outcome) = executor nr c cx MethodGet u None v h
   \<and> target_value (Head nr c cx u p h :: 'v outcome) = None
   \<and> (\<forall>x. result (Head nr c cx u p h :: 'v outcome) = Return (Some x) \<longrightarrow> \<not> DecodeError x)
   \<and> (\<forall>u' hm rs. nr MethodHead u = Inr u'
          \<and> Client_Do (httpClient c) (wire_request MethodHead u' cx p h) = (hm, Some rs, None)
          \<and> success_status (StatusCode rs)
        \<longrightarrow> result (Head nr c cx u p h :: 'v outcome) = Return None
          \<and> carrier (Head nr c cx u p h :: 'v outcome) = map_option (\<lambda>x. resp_Header rs) h
          \<and> final_body (Head nr c cx u p h :: 'v outcome)
              = Some \<lparr>unread = [], closed = True\<rparr>)
   \<and> (\<forall>u' hm rs. nr MethodHead u = Inr u'
          \<and> Client_Do (httpClient c) (wire_request MethodHead u' cx p h) = (hm, Some rs, None)
          \<and> \<not> success_status (StatusCode rs)
        \<longrightarrow> result (Head nr c cx u p h :: 'v outcome)
              = Return (Some (status_error (StatusCode rs) (unread (resp_Body rs)))))"
proof -
  have eq: "(Head nr c cx u p h :: 'v outcome) = executor nr c cx MethodHead u p None h"
    by (simp add: Head_def executor_def)
  have others: "(Post nr c cx u p v h :: 'v outcome) = executor nr c cx MethodPost u p v h
   \<and> (Put nr c cx u p v h :: 'v outcome) = executor nr c cx MethodPut u p v h
   \<and> (Patch nr c cx u p v h :: 'v outcome) = executor nr c cx MethodPatch u p v h
   \<and> (Delete nr c cx u p v h :: 'v outcome) = executor nr c cx MethodDelete u p v h
   \<and> (Get nr c cx u v h :: 'v outcome) = executor nr c cx MethodGet u None v h"
    by (simp add: Post_def Put_def Patch_def Delete_def Get_def executor_def)
  have nodec: "target_value (Head nr c cx u p h :: 'v outcome) = None
   \<and> (\<forall>x. result (Head nr c cx u p h :: 'v outcome) = Return (Some x) \<longrightarrow> \<not> DecodeError x)"
    unfolding eq by (rule executor_no_target)
  have ok: "\<forall>u' hm rs. nr MethodHead u = Inr u'
          \<and> Client_Do (httpClient c) (wire_request MethodHead u' cx p h) = (hm, Some rs, None)
          \<and> success_status (StatusCode rs)
        \<longrightarrow> result (Head nr c cx u p h :: 'v outcome) = Return None
          \<and> carrier (Head nr c cx u p h :: 'v outcome) = map_option (\<lambda>x. resp_Header rs) h
          \<and> final_body (Head nr c cx u p h :: 'v outcome)
              = Some \<lparr>unread = [], closed = True\<rparr>"
    unfolding eq by (simp add: executor_discard)
  have bad: "\<forall>u' hm rs. nr MethodHead u = Inr u'
          \<and> Client_Do (httpClient c) (wire_request MethodHead u' cx p h) = (hm, Some rs, None)
          \<and> \<not> success_status (StatusCode rs)
        \<longrightarrow> result (Head nr c cx u p h :: 'v outcome)
              = Return (Some (status_error (StatusCode rs) (unread (resp_Body rs))))"
    unfolding eq by (simp add: executor_status)
  show ?thesis
    apply (rule conjI [OF eq])
    apply (rule conjI [OF others [THEN conjunct1]])
    apply (rule conjI [OF others [THEN conjunct2, THEN conjunct1]])
    apply (rule conjI [OF others [THEN conjunct2, THEN conjunct2, THEN conjunct1]])
    apply (rule conjI [OF others [THEN conjunct2, THEN conjunct2, THEN conjunct2,
            THEN conjunct1]])
    apply (rule conjI [OF others [THEN conjunct2, THEN conjunct2, THEN conjunct2,
            THEN conjunct2]])
    apply (rule conjI [OF nodec [THEN conjunct1]])
    apply (rule conjI [OF nodec [THEN conjunct2]])
    apply (rule conjI [OF ok bad])
    done
qed

theorem Head_never_decodes_witness:
  "result (Head accept_url (New refuse (Some (respond 200
       [(''Location'', [''https://this.location/''])] [])) None) Background
       ''https://my.path/test'' (Some ''{}'') (Some []) :: unit outcome) = Return None
   \<and> carrier (Head accept_url (New refuse (Some (respond 200
       [(''Location'', [''https://this.location/''])] [])) None) Background
       ''https://my.path/test'' (Some ''{}'') (Some []) :: unit outcome)
      = Some [(''Location'', [''https://this.location/''])]
   \<and> result (Head accept_url (New refuse (Some (respond 503 [] [])) None) Background
       ''https://my.path/test'' None None :: unit outcome)
      = Return (Some (Join (Sentinel ErrServiceUnavailable) (Sentinel ErrRetriable)))
   \<and> \<not> DecodeError (Join (Sentinel ErrServiceUnavailable) (Sentinel ErrRetriable))"
proof -
  let ?c = "New refuse (Some (respond 200 [(''Location'', [''https://this.location/''])] []))
              None"
  let ?rs = "\<lparr>StatusCode = 200, resp_Header = [(''Location'', [''https://this.location/''])],
              resp_Body = \<lparr>unread = [], closed = False\<rparr>\<rparr>"
  let ?d = "New refuse (Some (respond 503 [] [])) None"
  let ?rd = "\<lparr>StatusCode = 503, resp_Header = [],
              resp_Body = \<lparr>unread = [], closed = False\<rparr>\<rparr>"
  have a: "accept_url MethodHead ''https://my.path/test'' = Inr ''https://my.path/test''"
    by (simp add: accept_url_def)
  have b: "Client_Do (httpClient ?c) (wire_request MethodHead ''https://my.path/test''
             Background (Some ''{}'') (Some [])) = ([], Some ?rs, None)"
    by (simp add: New_def respond_def plain_def Client_Do_def wire_request_def)
  have s: "success_status (StatusCode ?rs)"
    by (simp add: success_status_def)
  have b': "Client_Do (httpClient ?d) (wire_request MethodHead ''https://my.path/test''
             Background None None) = ([], Some ?rd, None)"
    by (simp add: New_def respond_def plain_def Client_Do_def wire_request_def)
  have s': "\<not> success_status (StatusCode ?rd)"
    by (simp add: success_status_def)
  have t: "status_error 503 [] = Join (Sentinel ErrServiceUnavailable) (Sentinel ErrRetriable)"
    by (simp add: status_error_def)
  note ok = Head_never_decodes [where 'v = unit and nr = accept_url and c = ?c
      and cx = Background and u = "''https://my.path/test''" and p = "Some ''{}''"
      and h = "Some []", THEN conjunct2, THEN conjunct2, THEN conjunct2, THEN conjunct2,
      THEN conjunct2, THEN conjunct2, THEN conjunct2, THEN conjunct2, THEN conjunct1,
      rule_format, of "''https://my.path/test''" "[]" ?rs]
  have 1: "result (Head accept_url ?c Background ''https://my.path/test'' (Some ''{}'')
             (Some []) :: unit outcome) = Return None
     \<and> carrier (Head accept_url ?c Background ''https://my.path/test'' (Some ''{}'')
             (Some []) :: unit outcome) = Some [(''Location'', [''https://this.location/''])]"
    using ok a b s by simp
  note bad = Head_never_decodes [where 'v = unit and nr = accept_url and c = ?d
      and cx = Background and u = "''https://my.path/test''" and p = None
      and h = None, THEN conjunct2, THEN conjunct2, THEN conjunct2, THEN conjunct2,
      THEN conjunct2, THEN conjunct2, THEN conjunct2, THEN conjunct2, THEN conjunct2,
      rule_format, of "''https://my.path/test''" "[]" ?rd]
  have 2: "result (Head accept_url ?d Background ''https://my.path/test'' None None
             :: unit outcome)
      = Return (Some (Join (Sentinel ErrServiceUnavailable) (Sentinel ErrRetriable)))"
    using bad a b' s' t by simp
  show ?thesis using 1 2 by simp
qed

section \<open>Request construction\<close>

text \<open>
  Claim C6.  When the library rejects the method or the URL, every entry point returns an
  error whose text names the method and ends with the text of the library's error, which
  wraps that error, and which is not marked Retriable; nothing is handed to the transport
  (and nothing is written to the sink).
\<close>

theorem construction_failure:
  assumes "nr (method_of vb) u = Inl e"
  shows "\<exists>x. result (call vb nr c cx u p v h) = Return (Some x)
           \<and> Error x = ''failed to create '' @ method_of vb
                          @ '' request: failed to create HTTP request: '' @ e
           \<and> contains (Error x) (method_of vb)
           \<and> contains (Error x) e
           \<and> wraps x (Foreign e)
           \<and> \<not> retriable x
           \<and> executed (trace (call vb nr c cx u p v h)) = []
           \<and> trace (call vb nr c cx u p v h) = []"
proof -
  let ?x = "failMsg (method_of vb)
              (Errorf_w (''failed to create HTTP request: '' @ e) (Foreign e))"
  have out: "call vb nr c cx u p v h =
     \<lparr>result = Return (Some ?x), carrier = h, target_value = None, trace = [],
      final_body = None\<rparr>"
    using assms by (simp add: call_executor executor_construction)
  have str: "Error ?x = ''failed to create '' @ method_of vb
               @ '' request: failed to create HTTP request: '' @ e"
    by (simp add: failMsg_def)
  have m: "contains (Error ?x) (method_of vb)"
    unfolding str by (rule contains_append)
  have e: "contains (Error ?x) e"
    unfolding str
    using contains_end [of "''failed to create '' @ method_of vb
               @ '' request: failed to create HTTP request: ''" e] by simp
  have w: "wraps ?x (Foreign e)"
    by (simp add: wraps_def failMsg_def)
  have r: "\<not> retriable ?x"
    by (simp add: retriable_def failMsg_def)
  show ?thesis
    using out str m e w r by simp
qed

theorem construction_failure_witness:
  "reject_url (method_of GET) ''://bad'' = Inl ''missing protocol scheme''
   \<and> (\<exists>x. result (call GET reject_url (New refuse None None) Background ''://bad'' None
                 (Some reject_json) None) = Return (Some x)
          \<and> Error x = ''failed to create GET request: failed to create HTTP request: missing protocol scheme''
          \<and> \<not> retriable x)
   \<and> trace (call GET reject_url (New refuse None None) Background ''://bad'' None
                 (Some reject_json) None) = []"
proof -
  have h: "reject_url (method_of GET) ''://bad'' = Inl ''missing protocol scheme''"
    by (simp add: reject_url_def)
  show ?thesis
    using h construction_failure [where nr = reject_url and vb = GET and u = "''://bad''"
        and e = "''missing protocol scheme''" and c = "New refuse None None"
        and cx = Background and p = None and v = "Some reject_json" and h = None]
    by auto
qed


text \<open>
  Claim C7, amended.  Once the request is constructed, every entry point hands exactly one
  request to the transport, with the method of the entry point.  For \<open>Post\<close>, \<open>Put\<close>,
  \<open>Patch\<close>, \<open>Delete\<close> and \<open>Head\<close> its body is the payload of the caller: present,
  even when empty, or absent.  \<open>Get\<close> takes no payload, and its request has no body.
\<close>

theorem payload_becomes_body:
  assumes "nr (method_of vb) u = Inr u'"
  shows "\<exists>r. executed (trace (call vb nr c cx u p v h)) = [r]
           \<and> req_Method r = method_of vb
           \<and> (vb \<noteq> GET \<longrightarrow> req_Body r = p)
           \<and> (vb = GET \<longrightarrow> req_Body r = None)"
proof -
  have e: "executed (request_log c r @ ClientDo w # (case x of
                  (hm, Some rs, None) \<Rightarrow> response_log c rs
                | (hm, ro, eo) \<Rightarrow> [])) = [w]"
    for r w and x :: "header \<times> response option \<times> string option"
    by (simp add: request_log_def response_log_def split: prod.splits option.splits)
  have "executed (trace (call vb nr c cx u p v h))
          = [wire_request (method_of vb) u' cx (payload_of vb p) h]"
    using assms by (simp add: call_executor executor_trace e)
  then show ?thesis
    by (simp add: wire_request_def payload_of_eq)
qed

theorem payload_becomes_body_witness:
  "(\<exists>r. executed (trace (call POST accept_url (New refuse None None) Background
              ''https://my.path/test'' (Some []) (None :: unit target option) None)) = [r]
        \<and> req_Body r = Some [])
   \<and> (\<exists>r. executed (trace (call POST accept_url (New refuse None None) Background
              ''https://my.path/test'' None (None :: unit target option) None)) = [r]
        \<and> req_Body r = None)
   \<and> (\<exists>r. executed (trace (call GET accept_url (New refuse None None) Background
              ''https://my.path/test'' None (None :: unit target option) None)) = [r]
        \<and> req_Body r = None)"
  using payload_becomes_body [where nr = accept_url and vb = POST
      and u = "''https://my.path/test''" and u' = "''https://my.path/test''"
      and c = "New refuse None None" and cx = Background and p = "Some []" and h = None
      and v = "None :: unit target option"]
    payload_becomes_body [where nr = accept_url and vb = POST
      and u = "''https://my.path/test''" and u' = "''https://my.path/test''"
      and c = "New refuse None None" and cx = Background and p = None and h = None
      and v = "None :: unit target option"]
    payload_becomes_body [where nr = accept_url and vb = GET
      and u = "''https://my.path/test''" and u' = "''https://my.path/test''"
      and c = "New refuse None None" and cx = Background and p = None and h = None
      and v = "None :: unit target option"]
  by (simp add: accept_url_def) blast

theorem Get_sends_no_payload:
  "executed (trace (call GET accept_url (New refuse None None) Background
      ''https://my.path/test'' (Some ''{}'') (None :: unit target option) None))
     = [\<lparr>req_Method = ''GET'', req_URL = ''https://my.path/test'', req_Header = [],
         req_Body = None, req_Context = Background\<rparr>]
   \<and> executed (trace (call POST accept_url (New refuse None None) Background
      ''https://my.path/test'' (Some ''{}'') (None :: unit target option) None))
     = [\<lparr>req_Method = ''POST'', req_URL = ''https://my.path/test'', req_Header = [],
         req_Body = Some ''{}'', req_Context = Background\<rparr>]"
  by (simp add: run_defs)




section \<open>The header carrier\<close>

text \<open>
  What the carrier holds after a call on which one was supplied: the header set of the
  response exactly when the request was constructed and \<^verbatim>\<open>Do\<close> returned a response whose
  status is a success status (also when the call then fails with a decode error); what it
  held before when the construction fails; and in every other case the header map of the
  request as \<^verbatim>\<open>Do\<close> left it, which is what the carrier held before whenever the client
  has written nothing to that map.
\<close>

lemma carrier_after_call:
  "carrier (call vb nr c cx u p v (Some h)) =
     (case nr (method_of vb) u of
        Inl e \<Rightarrow> Some h
      | Inr u' \<Rightarrow>
          (case Client_Do (httpClient c)
                  (wire_request (method_of vb) u' cx (if vb = GET then None else p) (Some h)) of
             (hm, Some rs, None) \<Rightarrow>
               if success_status (StatusCode rs) then Some (resp_Header rs) else Some hm
           | (hm, ro, eo) \<Rightarrow> Some hm))"
  by (simp add: call_executor executor_carrier payload_of_eq shared_def
      split: sum.splits prod.splits option.splits)

lemma carrier_unchanged_without_cookies:
  assumes "cookie_header (httpClient c)
             (wire_request (method_of vb) u' cx (if vb = GET then None else p) (Some h)) = h"
    and "nr (method_of vb) u = Inr u'"
  shows "carrier (call vb nr c cx u p v (Some h)) =
     (case Client_Do (httpClient c)
             (wire_request (method_of vb) u' cx (if vb = GET then None else p) (Some h)) of
        (hm, Some rs, None) \<Rightarrow>
          if success_status (StatusCode rs) then Some (resp_Header rs) else Some h
      | (hm, ro, eo) \<Rightarrow> Some h)"
proof -
  let ?W = "wire_request (method_of vb) u' cx (if vb = GET then None else p) (Some h)"
  have "fst (Client_Do (httpClient c) ?W) = h"
    using assms(1) by (simp add: Client_Do_header)
  then show ?thesis
    using assms(2) by (auto simp add: carrier_after_call split: prod.splits option.splits)
qed

lemma carrier_overwritten_before_decode:
  assumes "nr (method_of vb) u = Inr u'"
    and "Client_Do (httpClient c)
           (wire_request (method_of vb) u' cx (if vb = GET then None else p) (Some h))
         = (hm, Some rs, None)"
    and "success_status (StatusCode rs)" and "vb \<noteq> HEAD"
    and "failure (t (unread (resp_Body rs))) = Some e"
  shows "(\<exists>x. result (call vb nr c cx u p (Some t) (Some h)) = Return (Some x) \<and> DecodeError x)
          \<and> carrier (call vb nr c cx u p (Some t) (Some h)) = Some (resp_Header rs)"
  using assms has_prefix_append [of "''could not parse response body: ''"]
  by (simp add: call_executor payload_of_eq target_of_eq executor_decode Let_def)

text \<open>
  Claim C8.  The claim: with a header carrier supplied, the carrier is overwritten with
  the headers of the response exactly when the exchange produced a response with a
  success status, and is left completely unchanged when the call fails with a
  construction error, a transport error or a classified status error.  On the code: the
  request and the carrier share one header map (line 144), and the HTTP client adds the
  cookies of its jar to the header map of the request.  With a client whose jar holds the
  cookie \<^verbatim>\<open>sid=1\<close>, a call of \<open>Get\<close> with the carrier \<^verbatim>\<open>Test: testvalue\<close> that is answered
  with the status 404 returns \<open>ErrNotFound\<close> and leaves the cookie in the carrier.
\<close>

theorem carrier_gets_cookie_on_404:
  "result (call GET accept_url
       (New refuse (Some (with_jar ''sid=1'' (respond 404 [] []))) None) Background
       ''https://my.path/test'' None (None :: unit target option)
       (Some [(''Test'', [''testvalue''])]))
     = Return (Some (Sentinel ErrNotFound))
   \<and> carrier (call GET accept_url
       (New refuse (Some (with_jar ''sid=1'' (respond 404 [] []))) None) Background
       ''https://my.path/test'' None (None :: unit target option)
       (Some [(''Test'', [''testvalue''])]))
     = Some [(''Cookie'', [''sid=1'']), (''Test'', [''testvalue''])]
   \<and> carrier (call GET accept_url
       (New refuse (Some (with_jar ''sid=1'' (respond 404 [] []))) None) Background
       ''https://my.path/test'' None (None :: unit target option)
       (Some [(''Test'', [''testvalue''])]))
     \<noteq> Some [(''Test'', [''testvalue''])]"
  by (simp add: run_defs with_jar_def)

section \<open>The diagnostic dump\<close>

text \<open>
  With Debug enabled, the first thing a call does for a request that is constructed is to
  write to the sink the request as \<^verbatim>\<open>newRequest\<close> built it, with its body; the next thing
  is to hand to \<^verbatim>\<open>Do\<close> the request with the same method, URL and body: the dump leaves
  the body in place.
\<close>

lemma debug_dumps_built_request:
  assumes "Debug (options c)" and "nr (method_of vb) u = Inr u'"
  shows "\<exists>rest. trace (call vb nr c cx u p v h) =
           LogPrintf (RequestDump
             \<lparr>req_Method = method_of vb, req_URL = u', req_Header = [],
              req_Body = (if vb = GET then None else p), req_Context = Background\<rparr>)
         # ClientDo
             \<lparr>req_Method = method_of vb, req_URL = u',
              req_Header = (case h of None \<Rightarrow> [] | Some x \<Rightarrow> x),
              req_Body = (if vb = GET then None else p), req_Context = cx\<rparr>
         # rest"
  using assms
  by (simp add: call_executor executor_trace request_log_def built_request_def
      wire_request_def payload_of_eq)

text \<open>
  Claim C9.  The claim: with Debug enabled, the fully formed request, including its
  headers and its body, is written to the sink before the request is sent, and the dump
  does not consume the body.  On the code: the dump is made in \<^verbatim>\<open>newRequest\<close> (line
  134), and the headers of the carrier are attached to the request afterwards, in
  \<^verbatim>\<open>doRequest\<close> (line 144).  A call of \<open>Get\<close> with the carrier \<^verbatim>\<open>Test: testvalue\<close> dumps a
  request without that header and then sends the request with it; the dump of the
  response (line 189) is complete.
\<close>

theorem dump_omits_carrier_headers:
  "trace (call GET accept_url
       (New refuse (Some (respond 200 [] ''{}'')) (Some \<lparr>Debug = True\<rparr>)) (Ctx 1)
       ''https://my.path/test'' None (None :: unit target option)
       (Some [(''Test'', [''testvalue''])]))
     = [LogPrintf (RequestDump
          \<lparr>req_Method = ''GET'', req_URL = ''https://my.path/test'', req_Header = [],
           req_Body = None, req_Context = Background\<rparr>),
        ClientDo
          \<lparr>req_Method = ''GET'', req_URL = ''https://my.path/test'',
           req_Header = [(''Test'', [''testvalue''])],
           req_Body = None, req_Context = Ctx 1\<rparr>,
        LogPrintf (ResponseDump
          \<lparr>StatusCode = 200, resp_Header = [],
           resp_Body = \<lparr>unread = ''{}'', closed = False\<rparr>\<rparr>)]"
  by (simp add: run_defs)

section \<open>Construction of the client\<close>

text \<open>
  Claim C10.  \<open>New\<close> with a nil transport and a nil configuration returns a client whose
  transport is the default client of the library and whose configuration has Debug
  disabled; a non-nil transport and a non-nil configuration are stored as they are given,
  each independently of the other.
\<close>

theorem New_defaults_and_stores:
  "New d None None = \<lparr>httpClient = d, options = \<lparr>Debug = False\<rparr>\<rparr>
   \<and> httpClient (New d None None) = d
   \<and> Debug (options (New d None None)) = False
   \<and> New d (Some t) (Some os) = \<lparr>httpClient = t, options = os\<rparr>
   \<and> New d None (Some os) = \<lparr>httpClient = d, options = os\<rparr>
   \<and> New d (Some t) None = \<lparr>httpClient = t, options = \<lparr>Debug = False\<rparr>\<rparr>"
  by (simp add: New_def)

end
